theory Spec2Isabelle
  imports Main "HOL-Library.Word" "HOL-Library.AList"
begin

section \<open>JavaScript strings\<close>

text \<open>
  A JavaScript string is a sequence of UTF-16 code units: \<open>length\<close>, \<open>slice\<close> and
  \<open>===\<close> all work on code units. The embedding \<open>js\<close> turns an ASCII literal of the
  theory into the JavaScript string with the same characters.
\<close>

type_synonym code_unit = "16 word"
type_synonym jsstring = "code_unit list"

definition js :: "string \<Rightarrow> jsstring" where
  "js s = map (\<lambda>c. of_nat (of_char c)) s"

section \<open>JSON.parse\<close>

text \<open>
  The parsers of the repository start with \<open>JSON.parse(line)\<close>. The value it returns is
  modelled by \<open>json\<close>; a number keeps its lexeme, and its Number value is taken where
  the code uses it. An object keeps its members in source order, duplicates included;
  property lookup (\<open>get_prop\<close> below) takes the last member of a name, as the object built
  by \<open>JSON.parse\<close> does.
\<close>

datatype json =
    JNull
  | JBool bool
  | JNumber jsstring
  | JString jsstring
  | JArray "json list"
  | JObject "(jsstring \<times> json) list"

definition is_ws :: "code_unit \<Rightarrow> bool" where
  "is_ws c \<longleftrightarrow> c = 0x09 \<or> c = 0x0A \<or> c = 0x0D \<or> c = 0x20"

definition skip_ws :: "jsstring \<Rightarrow> jsstring" where
  "skip_ws s = dropWhile is_ws s"

definition is_digit :: "code_unit \<Rightarrow> bool" where
  "is_digit c \<longleftrightarrow> 0x30 \<le> c \<and> c \<le> 0x39"

definition hex_digit :: "code_unit \<Rightarrow> code_unit option" where
  "hex_digit c =
     (if 0x30 \<le> c \<and> c \<le> 0x39 then Some (c - 0x30)
      else if 0x41 \<le> c \<and> c \<le> 0x46 then Some (c - 0x37)
      else if 0x61 \<le> c \<and> c \<le> 0x66 then Some (c - 0x57)
      else None)"

definition hex4 :: "code_unit \<Rightarrow> code_unit \<Rightarrow> code_unit \<Rightarrow> code_unit \<Rightarrow> code_unit option" where
  "hex4 a b c d =
     (case (hex_digit a, hex_digit b, hex_digit c, hex_digit d) of
        (Some w, Some x, Some y, Some z) \<Rightarrow> Some (((w * 16 + x) * 16 + y) * 16 + z)
      | _ \<Rightarrow> None)"

text \<open>The single-character escapes: quote, backslash, slash, b, f, n, r, t.\<close>

definition unescape :: "code_unit \<Rightarrow> code_unit option" where
  "unescape e =
     (if e = 0x22 then Some 0x22
      else if e = 0x5C then Some 0x5C
      else if e = 0x2F then Some 0x2F
      else if e = 0x62 then Some 0x08
      else if e = 0x66 then Some 0x0C
      else if e = 0x6E then Some 0x0A
      else if e = 0x72 then Some 0x0D
      else if e = 0x74 then Some 0x09
      else None)"

text \<open>
  The characters of a string literal after its opening quote, up to the closing quote.
  A control character below U+0020 must be escaped.
\<close>

fun parse_chars :: "jsstring \<Rightarrow> jsstring \<Rightarrow> (jsstring \<times> jsstring) option" where
  "parse_chars acc [] = None"
| "parse_chars acc (c # cs) =
     (if c = 0x22 then Some (rev acc, cs)
      else if c = 0x5C then
        (case cs of
           [] \<Rightarrow> None
         | e # cs' \<Rightarrow>
             if e = 0x75 then
               (case cs' of
                  h1 # h2 # h3 # h4 # cs'' \<Rightarrow>
                    (case hex4 h1 h2 h3 h4 of
                       None \<Rightarrow> None
                     | Some u \<Rightarrow> parse_chars (u # acc) cs'')
                | _ \<Rightarrow> None)
             else
               (case unescape e of
                  None \<Rightarrow> None
                | Some u \<Rightarrow> parse_chars (u # acc) cs'))
      else if c < 0x20 then None
      else parse_chars (c # acc) cs)"

definition parse_digits :: "jsstring \<Rightarrow> (jsstring \<times> jsstring) option" where
  "parse_digits s =
     (let ds = takeWhile is_digit s in
      if ds = [] then None else Some (ds, dropWhile is_digit s))"

definition parse_int_part :: "jsstring \<Rightarrow> (jsstring \<times> jsstring) option" where
  "parse_int_part s =
     (case s of
        [] \<Rightarrow> None
      | c # cs \<Rightarrow>
          if c = 0x30 then Some ([c], cs)
          else if is_digit c then parse_digits s
          else None)"

definition parse_frac_part :: "jsstring \<Rightarrow> (jsstring \<times> jsstring) option" where
  "parse_frac_part s =
     (case s of
        [] \<Rightarrow> Some ([], s)
      | c # cs \<Rightarrow>
          if c = 0x2E then
            (case parse_digits cs of
               None \<Rightarrow> None
             | Some (ds, rest) \<Rightarrow> Some (c # ds, rest))
          else Some ([], s))"

definition parse_exp_part :: "jsstring \<Rightarrow> (jsstring \<times> jsstring) option" where
  "parse_exp_part s =
     (case s of
        [] \<Rightarrow> Some ([], s)
      | c # cs \<Rightarrow>
          if c = 0x65 \<or> c = 0x45 then
            (case cs of
               [] \<Rightarrow> None
             | d # ds \<Rightarrow>
                 if d = 0x2B \<or> d = 0x2D then
                   (case parse_digits ds of
                      None \<Rightarrow> None
                    | Some (es, rest) \<Rightarrow> Some (c # d # es, rest))
                 else
                   (case parse_digits cs of
                      None \<Rightarrow> None
                    | Some (es, rest) \<Rightarrow> Some (c # es, rest)))
          else Some ([], s))"

definition parse_sign :: "jsstring \<Rightarrow> jsstring \<times> jsstring" where
  "parse_sign s =
     (case s of
        [] \<Rightarrow> ([], s)
      | c # cs \<Rightarrow> if c = 0x2D then ([c], cs) else ([], s))"

definition parse_number :: "jsstring \<Rightarrow> (jsstring \<times> jsstring) option" where
  "parse_number s =
     (case parse_sign s of
        (sign, s1) \<Rightarrow>
          (case parse_int_part s1 of
             None \<Rightarrow> None
           | Some (ip, s2) \<Rightarrow>
               (case parse_frac_part s2 of
                  None \<Rightarrow> None
                | Some (fp, s3) \<Rightarrow>
                    (case parse_exp_part s3 of
                       None \<Rightarrow> None
                     | Some (ep, s4) \<Rightarrow> Some (sign @ ip @ fp @ ep, s4)))))"

definition parse_literal :: "jsstring \<Rightarrow> json \<Rightarrow> jsstring \<Rightarrow> (json \<times> jsstring) option" where
  "parse_literal w v s =
     (if take (length w) s = w then Some (v, drop (length w) s) else None)"

lemma length_skip_ws: "length (skip_ws s) \<le> length s"
  by (simp add: skip_ws_def length_dropWhile_le)

lemma skip_ws_Cons_length: "skip_ws s = c # cs \<Longrightarrow> length cs < length s"
  using length_skip_ws [of s] by simp

text \<open>
  The recursive descent over values, array elements and object members. Each function
  returns the value and the input left over. The tests \<open>length rest < length s\<close> are
  there for the termination proof only: \<open>parse_consumes\<close> and \<open>parse_chars_consumes\<close> show they never
  fail.
\<close>

function (sequential)
    parse_value :: "jsstring \<Rightarrow> (json \<times> jsstring) option"
and parse_elements :: "json list \<Rightarrow> jsstring \<Rightarrow> (json \<times> jsstring) option"
and parse_members :: "(jsstring \<times> json) list \<Rightarrow> jsstring \<Rightarrow> (json \<times> jsstring) option"
where
  "parse_value s =
     (case skip_ws s of
        [] \<Rightarrow> None
      | c # cs \<Rightarrow>
          if c = 0x7B then
            (case skip_ws cs of
               [] \<Rightarrow> None
             | d # ds \<Rightarrow>
                 if d = 0x7D then Some (JObject [], ds) else parse_members [] (d # ds))
          else if c = 0x5B then
            (case skip_ws cs of
               [] \<Rightarrow> None
             | d # ds \<Rightarrow>
                 if d = 0x5D then Some (JArray [], ds) else parse_elements [] (d # ds))
          else if c = 0x22 then
            (case parse_chars [] cs of
               None \<Rightarrow> None
             | Some (str, rest) \<Rightarrow> Some (JString str, rest))
          else if c = 0x74 then parse_literal (js ''true'') (JBool True) (c # cs)
          else if c = 0x66 then parse_literal (js ''false'') (JBool False) (c # cs)
          else if c = 0x6E then parse_literal (js ''null'') JNull (c # cs)
          else
            (case parse_number (c # cs) of
               None \<Rightarrow> None
             | Some (num, rest) \<Rightarrow> Some (JNumber num, rest)))"
| "parse_elements acc s =
     (case parse_value s of
        None \<Rightarrow> None
      | Some (v, rest) \<Rightarrow>
          if length rest < length s then
            (case skip_ws rest of
               [] \<Rightarrow> None
             | c # cs \<Rightarrow>
                 if c = 0x2C then parse_elements (v # acc) cs
                 else if c = 0x5D then Some (JArray (rev (v # acc)), cs)
                 else None)
          else None)"
| "parse_members acc s =
     (case skip_ws s of
        [] \<Rightarrow> None
      | q # cs \<Rightarrow>
          if q = 0x22 then
            (case parse_chars [] cs of
               None \<Rightarrow> None
             | Some (key, rest) \<Rightarrow>
                 (case skip_ws rest of
                    [] \<Rightarrow> None
                  | colon # vs \<Rightarrow>
                      if colon = 0x3A \<and> length vs < length s then
                        (case parse_value vs of
                           None \<Rightarrow> None
                         | Some (v, rest') \<Rightarrow>
                             if length rest' < length vs then
                               (case skip_ws rest' of
                                  [] \<Rightarrow> None
                                | c # cs' \<Rightarrow>
                                    if c = 0x2C then parse_members ((key, v) # acc) cs'
                                    else if c = 0x7D
                                      then Some (JObject (rev ((key, v) # acc)), cs')
                                    else None)
                             else None)
                      else None))
          else None)"
  by pat_completeness auto

termination
  apply (relation "measure (\<lambda>x. case x of
            Inl s \<Rightarrow> 2 * length s
          | Inr (Inl (acc, s)) \<Rightarrow> 2 * length s + 1
          | Inr (Inr (acc, s)) \<Rightarrow> 2 * length s + 1)")
  apply (auto dest!: skip_ws_Cons_length)
  done

text \<open>\<open>JSON.parse\<close>: one value, then nothing but white space. \<open>None\<close> is its SyntaxError.\<close>

definition JSON_parse :: "jsstring \<Rightarrow> json option" where
  "JSON_parse s =
     (case parse_value s of
        None \<Rightarrow> None
      | Some (v, rest) \<Rightarrow> if skip_ws rest = [] then Some v else None)"

text \<open>
  Property access \<open>record.k\<close> on a parsed value other than \<open>null\<close>. \<open>None\<close> is
  \<open>undefined\<close>: the names read this way (\<open>type\<close>, \<open>id\<close>, \<open>exec_id\<close>, \<open>command\<close>,
  \<open>file_path\<close>, \<open>tool_name\<close>, and \<open>length\<close> on an object) are properties of no
  prototype of a plain object, so only an object's own members answer. On \<open>null\<close> the
  access throws a TypeError, which the callers below handle before they read.
\<close>

fun get_prop :: "json \<Rightarrow> jsstring \<Rightarrow> json option" where
  "get_prop (JObject members) k = map_of (rev members) k"
| "get_prop _ k = None"


section \<open>Values at run time\<close>

text \<open>
  The parsers read the fields of a record through casts (\<open>record.id as string\<close>), which
  check nothing at run time: the variable holds whatever JSON value the line has there,
  and the code that follows works on it by JavaScript's rules. This section gives those
  rules for the operations the parsers apply to such a value: \<open>||\<close> and \<open>&&\<close>
  (ToBoolean), template literals and \<open>+\<close> with a string (ToString), \<open>.length\<close>,
  \<open>.slice\<close>, \<open>>\<close> against a number, and membership in a \<open>Set\<close> or \<open>Map\<close>.

  A Number is an IEEE 754 binary64 and is modelled by its 64 bits: the sign in bit 63,
  the exponent in bits 62 to 52, the fraction in bits 51 to 0. The two conversions
  between Numbers and strings are parameters of the model: \<open>StringToNumber\<close> (which also
  gives the Number of a JSON number, from its lexeme) and \<open>Number_toString\<close>.
\<close>

type_synonym number = "64 word"

record conversions =
  StringToNumber :: "jsstring \<Rightarrow> number"
  Number_toString :: "number \<Rightarrow> jsstring"

definition exponent_bits :: "number \<Rightarrow> nat" where
  "exponent_bits d = unat (take_bit 11 (drop_bit 52 d))"

definition fraction_bits :: "number \<Rightarrow> nat" where
  "fraction_bits d = unat (take_bit 52 d)"

definition is_NaN :: "number \<Rightarrow> bool" where
  "is_NaN d \<longleftrightarrow> exponent_bits d = 2047 \<and> fraction_bits d \<noteq> 0"

definition is_zero :: "number \<Rightarrow> bool" where
  "is_zero d \<longleftrightarrow> exponent_bits d = 0 \<and> fraction_bits d = 0"

text \<open>
  \<open>d > n\<close> for a Number \<open>d\<close> and a natural number \<open>n\<close>: false for NaN and for every
  negative Number, true for \<open>+Infinity\<close>; a finite Number has the magnitude
  \<open>m * 2 ^ (x - 1075)\<close>, where \<open>m\<close> is the fraction (with the hidden bit, unless the
  Number is subnormal) and \<open>x\<close> the exponent (1 for a subnormal).
\<close>

definition number_gt :: "number \<Rightarrow> nat \<Rightarrow> bool" where
  "number_gt d n \<longleftrightarrow>
     (let e = exponent_bits d;
          f = fraction_bits d;
          m = (if e = 0 then f else 2 ^ 52 + f);
          x = (if e = 0 then 1 else e)
      in \<not> bit d 63 \<and>
         (if e = 2047 then f = 0
          else if 1075 \<le> x then n < m * 2 ^ (x - 1075)
          else n * 2 ^ (1075 - x) < m))"

text \<open>
  ToBoolean of a parsed value: \<open>null\<close>, \<open>false\<close>, the empty string, zero and NaN are
  falsy; everything else, every array and object included, is truthy.
\<close>

definition truthy :: "conversions \<Rightarrow> json \<Rightarrow> bool" where
  "truthy num v =
     (case v of
        JNull \<Rightarrow> False
      | JBool b \<Rightarrow> b
      | JNumber lexeme \<Rightarrow>
          \<not> is_zero (StringToNumber num lexeme) \<and> \<not> is_NaN (StringToNumber num lexeme)
      | JString s \<Rightarrow> s \<noteq> []
      | JArray xs \<Rightarrow> True
      | JObject members \<Rightarrow> True)"

text \<open>\<open>record.k || d\<close>\<close>

definition field_or :: "conversions \<Rightarrow> json \<Rightarrow> jsstring \<Rightarrow> json \<Rightarrow> json" where
  "field_or num record k d =
     (case get_prop record k of
        None \<Rightarrow> d
      | Some v \<Rightarrow> if truthy num v then v else d)"

text \<open>\<open>Array.prototype.join\<close> with its default separator, the comma.\<close>

fun join :: "jsstring list \<Rightarrow> jsstring" where
  "join [] = []"
| "join [x] = x"
| "join (x # y # ys) = x @ 0x2C # join (y # ys)"

text \<open>
  ToString of a parsed value, as a template literal and \<open>+\<close> with a string apply it;
  \<open>None\<close> is a TypeError. An array is joined, with \<open>null\<close> elements as empty strings. A
  plain object answers through \<open>Object.prototype.toString\<close>, unless the line gave it a
  member named \<open>toString\<close>: that member is not callable, \<open>valueOf\<close> returns the object
  itself, and the conversion throws.
\<close>

fun ToString :: "conversions \<Rightarrow> json \<Rightarrow> jsstring option" where
  "ToString num JNull = Some (js ''null'')"
| "ToString num (JBool b) = Some (if b then js ''true'' else js ''false'')"
| "ToString num (JNumber lexeme) = Some (Number_toString num (StringToNumber num lexeme))"
| "ToString num (JString s) = Some s"
| "ToString num (JArray xs) =
     map_option join (those (map (\<lambda>x. if x = JNull then Some [] else ToString num x) xs))"
| "ToString num (JObject members) =
     (if js ''toString'' \<in> fst ` set members then None else Some (js ''[object Object]''))"

text \<open>
  \<open>v > n\<close> for a parsed value \<open>v\<close> and a natural number \<open>n\<close>: \<open>v\<close> is converted to a
  Number (\<open>null\<close> to 0, \<open>true\<close> to 1, a string by \<open>StringToNumber\<close>, an array or object
  through its string) and compared. \<open>None\<close> is the TypeError of the conversion.
\<close>

definition greater_than :: "conversions \<Rightarrow> json \<Rightarrow> nat \<Rightarrow> bool option" where
  "greater_than num v n =
     (case v of
        JNull \<Rightarrow> Some False
      | JBool b \<Rightarrow> Some (b \<and> n = 0)
      | JNumber lexeme \<Rightarrow> Some (number_gt (StringToNumber num lexeme) n)
      | JString s \<Rightarrow> Some (number_gt (StringToNumber num s) n)
      | JArray xs \<Rightarrow> map_option (\<lambda>s. number_gt (StringToNumber num s) n) (ToString num v)
      | JObject members \<Rightarrow>
          map_option (\<lambda>s. number_gt (StringToNumber num s) n) (ToString num v))"

text \<open>
  A value as a member of a \<open>Set\<close> or a key of a \<open>Map\<close>, and in a posted message. Strings,
  Numbers and booleans are compared by value; an array or an object is compared by
  identity, so it carries the address at which \<open>JSON.parse\<close> allocated it. (A Number that
  is a key is truthy, hence neither a zero nor NaN, and two such Numbers are the same
  value exactly when their bits are the same.)
\<close>

datatype jsvalue =
    Null
  | Bool bool
  | Num number
  | Str jsstring
  | Ref nat json

definition value_of :: "conversions \<Rightarrow> nat \<Rightarrow> json \<Rightarrow> jsvalue" where
  "value_of num ref v =
     (case v of
        JNull \<Rightarrow> Null
      | JBool b \<Rightarrow> Bool b
      | JNumber lexeme \<Rightarrow> Num (StringToNumber num lexeme)
      | JString s \<Rightarrow> Str s
      | JArray xs \<Rightarrow> Ref ref v
      | JObject members \<Rightarrow> Ref ref v)"

text \<open>ToBoolean of such a value.\<close>

definition truthy_value :: "jsvalue \<Rightarrow> bool" where
  "truthy_value v =
     (case v of
        Null \<Rightarrow> False
      | Bool b \<Rightarrow> b
      | Num d \<Rightarrow> \<not> is_zero d \<and> \<not> is_NaN d
      | Str s \<Rightarrow> s \<noteq> []
      | Ref a x \<Rightarrow> True)"

text \<open>
  \<open>const x = record.k; if (x && set.has(x))\<close>: the value when the test passes. \<open>ref\<close> is
  the address of the value if it is an array or an object.
\<close>

definition field_in :: "conversions \<Rightarrow> nat \<Rightarrow> json \<Rightarrow> jsstring \<Rightarrow> jsvalue list
    \<Rightarrow> jsvalue option" where
  "field_in num ref record k ids =
     (case get_prop record k of
        None \<Rightarrow> None
      | Some v \<Rightarrow>
          if truthy num v \<and> value_of num ref v \<in> set ids then Some (value_of num ref v)
          else None)"

text \<open>
  \<open>const eventType = record.type\<close>, as far as the parsers use it: they return at once
  when it is falsy, and compare it with \<open>===\<close> against string literals otherwise, so a
  value that is not a non-empty string selects no branch.
\<close>

definition event_type :: "json \<Rightarrow> jsstring option" where
  "event_type record =
     (case get_prop record (js ''type'') of
        Some (JString t) \<Rightarrow> if t = [] then None else Some t
      | _ \<Rightarrow> None)"

section \<open>Data model (types.ts, providerTypes.ts)\<close>

datatype ProviderId = CLAUDE | CODEX | CURSOR

text \<open>A VS Code terminal: an opaque handle compared by identity, and its name.\<close>

record Terminal =
  terminal_handle :: nat
  terminal_name :: jsstring

text \<open>
  A JavaScript \<open>Set\<close> is a duplicate-free list in insertion order, a \<open>Map\<close> an association
  list with distinct keys in insertion order: \<open>Map.set\<close> replaces the value of a key in
  place and appends a new key (\<open>AList.update\<close>), \<open>Map.delete\<close> is \<open>AList.delete\<close>, and
  iteration runs from the head. The tool ids are declared as strings; the Codex parser
  stores the \<open>id\<close> of the line uncast, so the collections hold values.
\<close>

record AgentState =
  agent_id :: nat
  provider :: ProviderId
  terminalRef :: "Terminal option"
  projectDir :: jsstring
  jsonlFile :: jsstring
  fileOffset :: nat
  lineBuffer :: jsstring
  activeToolIds :: "jsvalue list"
  activeToolStatuses :: "(jsvalue \<times> jsstring) list"
  activeToolNames :: "(jsvalue \<times> jsstring) list"
  activeSubagentToolIds :: "(jsstring \<times> jsstring list) list"
  activeSubagentToolNames :: "(jsstring \<times> (jsstring \<times> jsstring) list) list"
  isWaiting :: bool
  permissionSent :: bool
  hadToolsInTurn :: bool

definition set_add :: "'a \<Rightarrow> 'a list \<Rightarrow> 'a list" where
  "set_add x xs = (if x \<in> set xs then xs else xs @ [x])"

text \<open>The messages the parsers post to the webview.\<close>

datatype status = Active | Waiting

datatype message =
    AgentStatus nat status
  | AgentToolStart nat jsvalue jsstring
  | AgentToolDone nat jsvalue
  | AgentToolsClear nat
  | AgentToolPermission nat

text \<open>
  What a call does to the outside, in program order: \<open>PostMessage m\<close> is a call of
  \<open>webview.postMessage(m)\<close> made during the call; \<open>SetTimeout d m\<close> is
  \<open>setTimeout(() => ctx.webview?.postMessage(m), d)\<close>, a post of \<open>m\<close> scheduled
  \<open>d\<close> milliseconds later.
\<close>

datatype effect = PostMessage message | SetTimeout nat message

text \<open>An armed timer, with the delay it was armed with.\<close>

datatype timer = Timer nat

text \<open>
  The context of \<open>processLine\<close>. \<open>webview\<close> is false when the field is \<open>undefined\<close>.
  The \<open>agents\<close> map of the source's context is only handed on to the timer callbacks;
  the entry a call works on is its \<open>agent\<close> argument.
\<close>

record TranscriptContext =
  waitingTimers :: "nat \<rightharpoonup> timer"
  permissionTimers :: "nat \<rightharpoonup> timer"
  webview :: bool

text \<open>
  constants.ts is not among the sources: the values the modelled code reads from it are
  parameters.
\<close>

record constants =
  TOOL_DONE_DELAY_MS :: nat
  TEXT_IDLE_DELAY_MS :: nat
  PERMISSION_TIMER_DELAY_MS :: nat
  BASH_COMMAND_DISPLAY_MAX_LENGTH :: nat
  JSONL_POLL_INTERVAL_MS :: nat
  FILE_WATCHER_POLL_INTERVAL_MS :: nat

text \<open>\<open>ctx.webview?.postMessage(m)\<close>\<close>

definition postMessage :: "bool \<Rightarrow> message \<Rightarrow> effect list" where
  "postMessage wv m = (if wv then [PostMessage m] else [])"

section \<open>Timer manager (timerManager.ts)\<close>

text \<open>
  Modelled from the spec: timerManager.ts is not among the sources. Its section 4.4 and
  design notes give each agent one timer slot per family, armed by replacing the slot
  and cancelled by emptying it; cancelling an empty slot changes nothing.
\<close>

definition cancelWaitingTimer :: "nat \<Rightarrow> (nat \<rightharpoonup> timer) \<Rightarrow> (nat \<rightharpoonup> timer)" where
  "cancelWaitingTimer agentId timers = timers(agentId := None)"

text \<open>Modelled from the spec: the permission family of the same slots.\<close>

definition cancelPermissionTimer :: "nat \<Rightarrow> (nat \<rightharpoonup> timer) \<Rightarrow> (nat \<rightharpoonup> timer)" where
  "cancelPermissionTimer agentId timers = timers(agentId := None)"

text \<open>Modelled from the spec: arming the idle timer cancels and restarts it.\<close>

definition startWaitingTimer :: "nat \<Rightarrow> nat \<Rightarrow> (nat \<rightharpoonup> timer) \<Rightarrow> (nat \<rightharpoonup> timer)" where
  "startWaitingTimer agentId delay timers =
     (cancelWaitingTimer agentId timers)(agentId \<mapsto> Timer delay)"

text \<open>Modelled from the spec: arming the permission timer cancels and restarts it.\<close>

definition startPermissionTimer :: "constants \<Rightarrow> nat \<Rightarrow> (nat \<rightharpoonup> timer) \<Rightarrow> (nat \<rightharpoonup> timer)" where
  "startPermissionTimer c agentId timers =
     (cancelPermissionTimer agentId timers)(agentId \<mapsto> Timer (PERMISSION_TIMER_DELAY_MS c))"

text \<open>
  Modelled from the spec: \<open>clearAgentActivity\<close> of timerManager.ts is not among the
  sources. Both parsers call it at a turn start between cancelling the idle timer and
  resetting \<open>hadToolsInTurn\<close>, which leaves it the step of the spec's turn-start row
  "clear all active-tool tracking + emit a tools-cleared event".
\<close>

definition clearAgentActivity :: "AgentState \<Rightarrow> nat \<Rightarrow> bool \<Rightarrow> AgentState \<times> effect list" where
  "clearAgentActivity agent agentId wv =
     (agent\<lparr>activeToolIds := [],
            activeToolStatuses := [],
            activeToolNames := [],
            activeSubagentToolIds := [],
            activeSubagentToolNames := []\<rparr>,
      postMessage wv (AgentToolsClear agentId))"

section \<open>The Codex parser (providers/codexParser.ts)\<close>

text \<open>U+2026, the ellipsis that marks a truncated command.\<close>

definition ellipsis :: code_unit where
  "ellipsis = 0x2026"

text \<open>\<open>cmd.length > max ? cmd.slice(0, max) + ellipsis : cmd\<close>, for a string \<open>cmd\<close>.\<close>

definition truncate_command :: "constants \<Rightarrow> jsstring \<Rightarrow> jsstring" where
  "truncate_command c cmd =
     (if length cmd > BASH_COMMAND_DISPLAY_MAX_LENGTH c
      then take (BASH_COMMAND_DISPLAY_MAX_LENGTH c) cmd @ [ellipsis]
      else cmd)"

text \<open>
  The same expression for whatever \<open>cmd\<close> holds; \<open>None\<close> is a TypeError. An array has a
  \<open>length\<close> and a \<open>slice\<close> of its own, and \<open>+\<close> joins the slice into a string. A Number
  and a boolean have no \<open>length\<close>, and \<open>undefined > max\<close> is false. An object has the
  \<open>length\<close> its members give it and no callable \<open>slice\<close>, so a \<open>length\<close> above the
  limit ends in a TypeError.
\<close>

definition command_display :: "constants \<Rightarrow> conversions \<Rightarrow> json \<Rightarrow> json option" where
  "command_display c num cmd =
     (case cmd of
        JNull \<Rightarrow> None
      | JBool b \<Rightarrow> Some cmd
      | JNumber lexeme \<Rightarrow> Some cmd
      | JString s \<Rightarrow> Some (JString (truncate_command c s))
      | JArray xs \<Rightarrow>
          if length xs > BASH_COMMAND_DISPLAY_MAX_LENGTH c then
            map_option (\<lambda>s. JString (s @ [ellipsis]))
              (ToString num (JArray (take (BASH_COMMAND_DISPLAY_MAX_LENGTH c) xs)))
          else Some cmd
      | JObject members \<Rightarrow>
          (case get_prop cmd (js ''length'') of
             None \<Rightarrow> Some cmd
           | Some l \<Rightarrow>
               (case greater_than num l (BASH_COMMAND_DISPLAY_MAX_LENGTH c) of
                  None \<Rightarrow> None
                | Some longer \<Rightarrow> if longer then None else Some cmd)))"

text \<open>
  The status of a shell command, the same in both parsers:
  \<open>cmd = record.command || ''\<close>, then the display, then the template literal.
\<close>

definition command_status :: "constants \<Rightarrow> conversions \<Rightarrow> json \<Rightarrow> jsstring option" where
  "command_status c num record =
     (case command_display c num (field_or num record (js ''command'') (JString [])) of
        None \<Rightarrow> None
      | Some display \<Rightarrow> map_option (\<lambda>s. js ''Running: '' @ s) (ToString num display))"

definition formatCodexToolStatus :: "constants \<Rightarrow> conversions \<Rightarrow> jsstring \<Rightarrow> json
    \<Rightarrow> jsstring option" where
  "formatCodexToolStatus c num eventType record =
     (if eventType = js ''ExecCommandBegin'' then command_status c num record
      else Some (js ''Using '' @ eventType))"

text \<open>
  The turn-end block, the same in both parsers: both timers cancelled, the tool tracking
  cleared (with its \<open>agentToolsClear\<close>) only when a tool is open, the three flags reset,
  \<open>waiting\<close> posted.
\<close>

definition turnEnded :: "nat \<Rightarrow> AgentState \<Rightarrow> TranscriptContext
    \<Rightarrow> AgentState \<times> TranscriptContext \<times> effect list" where
  "turnEnded agentId agent ctx =
     (let ctx1 = ctx\<lparr>waitingTimers := cancelWaitingTimer agentId (waitingTimers ctx)\<rparr>;
          ctx2 = ctx1\<lparr>permissionTimers := cancelPermissionTimer agentId (permissionTimers ctx1)\<rparr>;
          (agent1, cleared) =
            (if activeToolIds agent \<noteq> [] then
               (agent\<lparr>activeToolIds := [],
                      activeToolStatuses := [],
                      activeToolNames := [],
                      activeSubagentToolIds := [],
                      activeSubagentToolNames := []\<rparr>,
                postMessage (webview ctx) (AgentToolsClear agentId))
             else (agent, []))
      in (agent1\<lparr>isWaiting := True, permissionSent := False, hadToolsInTurn := False\<rparr>,
          ctx2,
          cleared @ postMessage (webview ctx) (AgentStatus agentId Waiting)))"

text \<open>
  The turn-start steps the parsers share: the idle timer cancelled, \<open>clearAgentActivity\<close>,
  \<open>hadToolsInTurn\<close> reset. The callers add their own \<open>active\<close> status.
\<close>

definition turnStarted :: "nat \<Rightarrow> AgentState \<Rightarrow> TranscriptContext
    \<Rightarrow> AgentState \<times> TranscriptContext \<times> effect list" where
  "turnStarted agentId agent ctx =
     (let ctx1 = ctx\<lparr>waitingTimers := cancelWaitingTimer agentId (waitingTimers ctx)\<rparr>;
          (agent1, cleared) = clearAgentActivity agent agentId (webview ctx)
      in (agent1\<lparr>hadToolsInTurn := False\<rparr>, ctx1, cleared))"

text \<open>
  \<open>const toolId = (record.id as string) || crypto.randomUUID()\<close>. \<open>uuid\<close> is what
  \<open>crypto.randomUUID()\<close> returns if the call reaches it, \<open>ref\<close> the address of
  \<open>record.id\<close> if that is an array or an object.
\<close>

definition codexToolId :: "conversions \<Rightarrow> jsstring \<Rightarrow> nat \<Rightarrow> json \<Rightarrow> jsvalue" where
  "codexToolId num uuid ref record =
     (case get_prop record (js ''id'') of
        None \<Rightarrow> Str uuid
      | Some v \<Rightarrow> if truthy num v then value_of num ref v else Str uuid)"

text \<open>
  The branches of \<open>processCodexLine\<close> on a record whose \<open>type\<close> is the non-empty string
  \<open>eventType\<close>. The result \<open>None\<close> is an exception on its way to the \<open>catch\<close>: the
  only statement of these branches that can throw is the call of
  \<open>formatCodexToolStatus\<close>, which stands before the first assignment of its branch.
\<close>

definition codexEvent :: "constants \<Rightarrow> conversions \<Rightarrow> jsstring \<Rightarrow> nat \<Rightarrow> nat \<Rightarrow> jsstring
    \<Rightarrow> json \<Rightarrow> AgentState \<Rightarrow> TranscriptContext
    \<Rightarrow> (AgentState \<times> TranscriptContext \<times> effect list) option" where
  "codexEvent c num uuid ref agentId eventType record agent ctx =
     (if eventType = js ''TurnStarted'' then
        (case turnStarted agentId agent ctx of
           (agent1, ctx1, cleared) \<Rightarrow>
             Some (agent1, ctx1,
                   cleared @ postMessage (webview ctx) (AgentStatus agentId Active)))
      else if eventType = js ''TurnEnded'' then
        Some (turnEnded agentId agent ctx)
      else if eventType = js ''ExecCommandBegin'' then
        (let toolId = codexToolId num uuid ref record
         in case formatCodexToolStatus c num (js ''ExecCommandBegin'') record of
              None \<Rightarrow> None
            | Some status \<Rightarrow>
                Some (agent\<lparr>activeToolIds := set_add toolId (activeToolIds agent),
                            activeToolStatuses :=
                              AList.update toolId status (activeToolStatuses agent),
                            activeToolNames :=
                              AList.update toolId (js ''shell'') (activeToolNames agent),
                            hadToolsInTurn := True,
                            isWaiting := False\<rparr>,
                      ctx\<lparr>permissionTimers :=
                            startPermissionTimer c agentId (permissionTimers ctx)\<rparr>,
                      postMessage (webview ctx) (AgentStatus agentId Active)
                      @ postMessage (webview ctx) (AgentToolStart agentId toolId status)))
      else if eventType = js ''ExecCommandEnd'' then
        (let (agent1, done) =
               (case field_in num ref record (js ''id'') (activeToolIds agent) of
                  Some toolId \<Rightarrow>
                    (agent\<lparr>activeToolIds := removeAll toolId (activeToolIds agent),
                           activeToolStatuses :=
                             AList.delete toolId (activeToolStatuses agent),
                           activeToolNames := AList.delete toolId (activeToolNames agent)\<rparr>,
                     [SetTimeout (TOOL_DONE_DELAY_MS c) (AgentToolDone agentId toolId)])
                | None \<Rightarrow> (agent, []))
         in Some (if activeToolIds agent1 = [] then agent1\<lparr>hadToolsInTurn := False\<rparr>
                  else agent1,
                  ctx, done))
      else if eventType = js ''ExecOutputDelta'' then
        (case field_in num ref record (js ''exec_id'') (activeToolIds agent) of
           Some parentId \<Rightarrow>
             Some (agent,
                   ctx\<lparr>permissionTimers :=
                         startPermissionTimer c agentId (permissionTimers ctx)\<rparr>,
                   [])
         | None \<Rightarrow> Some (agent, ctx, []))
      else if eventType = js ''ApprovalRequest'' then
        Some (agent\<lparr>permissionSent := True\<rparr>, ctx,
              postMessage (webview ctx) (AgentToolPermission agentId))
      else if eventType = js ''AgentMessageDelta'' then
        (if \<not> hadToolsInTurn agent then
           Some (agent,
                 ctx\<lparr>waitingTimers :=
                       startWaitingTimer agentId (TEXT_IDLE_DELAY_MS c) (waitingTimers ctx)\<rparr>,
                 [])
         else Some (agent, ctx, []))
      else if eventType = js ''UserMessage'' then
        Some (turnStarted agentId agent ctx)
      else Some (agent, ctx, []))"

text \<open>
  The body of the \<open>try\<close> of \<open>processCodexLine\<close>; \<open>None\<close> is an exception: the SyntaxError
  of \<open>JSON.parse\<close>, the TypeError of \<open>record.type\<close> on \<open>null\<close>, or one from a branch. A
  record without a usable \<open>type\<close> returns at once (the SessionMeta header among them).
\<close>

definition tryCodexLine :: "constants \<Rightarrow> conversions \<Rightarrow> jsstring \<Rightarrow> nat \<Rightarrow> nat \<Rightarrow> jsstring
    \<Rightarrow> AgentState \<Rightarrow> TranscriptContext
    \<Rightarrow> (AgentState \<times> TranscriptContext \<times> effect list) option" where
  "tryCodexLine c num uuid ref agentId line agent ctx =
     (case JSON_parse line of
        None \<Rightarrow> None
      | Some JNull \<Rightarrow> None
      | Some record \<Rightarrow>
          (case event_type record of
             None \<Rightarrow> Some (agent, ctx, [])
           | Some eventType \<Rightarrow> codexEvent c num uuid ref agentId eventType record agent ctx))"

text \<open>
  \<open>processCodexLine\<close>: the \<open>catch\<close> is empty, and every exception is thrown before the
  call has changed anything, so a line that throws leaves the agent and the context as
  they were and emits nothing.
\<close>

definition processCodexLine :: "constants \<Rightarrow> conversions \<Rightarrow> jsstring \<Rightarrow> nat \<Rightarrow> nat \<Rightarrow> jsstring
    \<Rightarrow> AgentState \<Rightarrow> TranscriptContext
    \<Rightarrow> AgentState \<times> TranscriptContext \<times> effect list" where
  "processCodexLine c num uuid ref agentId line agent ctx =
     (case tryCodexLine c num uuid ref agentId line agent ctx of
        None \<Rightarrow> (agent, ctx, [])
      | Some result \<Rightarrow> result)"

text \<open>
  The caller's loop (the registry hands the completed lines to the parser one at a time,
  in file order), with each line paired with the random id and the address available to
  its call. In a run of the program the addresses of different calls differ, since every
  \<open>JSON.parse\<close> allocates anew; nothing below depends on it. The effects of the calls
  are concatenated in order.
\<close>

fun feedCodexLines :: "constants \<Rightarrow> conversions \<Rightarrow> nat \<Rightarrow> (jsstring \<times> jsstring \<times> nat) list
    \<Rightarrow> AgentState \<Rightarrow> TranscriptContext
    \<Rightarrow> AgentState \<times> TranscriptContext \<times> effect list" where
  "feedCodexLines c num agentId [] agent ctx = (agent, ctx, [])"
| "feedCodexLines c num agentId ((line, uuid, ref) # rest) agent ctx =
     (case processCodexLine c num uuid ref agentId line agent ctx of
        (agent1, ctx1, effects1) \<Rightarrow>
          (case feedCodexLines c num agentId rest agent1 ctx1 of
             (agent2, ctx2, effects2) \<Rightarrow> (agent2, ctx2, effects1 @ effects2)))"

section \<open>The Cursor parser (providers/cursorParser.ts)\<close>

text \<open>
  \<open>path.basename\<close> is Node's and depends on the platform (POSIX or Windows separators):
  the parser takes it as the parameter \<open>basename\<close>. \<open>posix_basename\<close> is the POSIX one,
  used where a concrete function is needed: trailing slashes dropped, then the part after
  the last slash.
\<close>

definition posix_basename :: "jsstring \<Rightarrow> jsstring" where
  "posix_basename p =
     rev (takeWhile (\<lambda>c. c \<noteq> 0x2F) (dropWhile (\<lambda>c. c = 0x2F) (rev p)))"

text \<open>
  \<open>path.basename(x)\<close> for whatever \<open>x\<close> holds: Node validates its argument and throws a
  TypeError when it is not a string.
\<close>

definition path_basename :: "(jsstring \<Rightarrow> jsstring) \<Rightarrow> json \<Rightarrow> jsstring option" where
  "path_basename basename x = (case x of JString s \<Rightarrow> Some (basename s) | _ \<Rightarrow> None)"

definition formatCursorStatus :: "constants \<Rightarrow> conversions \<Rightarrow> (jsstring \<Rightarrow> jsstring)
    \<Rightarrow> jsstring \<Rightarrow> json \<Rightarrow> jsstring option" where
  "formatCursorStatus c num basename event record =
     (if event = js ''beforeShellExecution'' then command_status c num record
      else if event = js ''beforeReadFile'' then
        map_option (\<lambda>s. js ''Reading '' @ s)
          (path_basename basename (field_or num record (js ''file_path'') (JString [])))
      else if event = js ''afterFileEdit'' then
        map_option (\<lambda>s. js ''Editing '' @ s)
          (path_basename basename (field_or num record (js ''file_path'') (JString [])))
      else if event = js ''beforeMCPExecution'' then
        map_option (\<lambda>s. js ''MCP: '' @ s)
          (ToString num (field_or num record (js ''tool_name'') (JString (js ''tool''))))
      else Some (js ''Using '' @ event))"

text \<open>
  The loop over \<open>agent.activeToolNames\<close> that stops at the first entry of the wanted
  kind: \<open>Map\<close> iteration runs in insertion order.
\<close>

fun matchTool :: "(jsvalue \<times> jsstring) list \<Rightarrow> jsstring \<Rightarrow> jsvalue option" where
  "matchTool [] matchType = None"
| "matchTool ((toolId, toolName) # rest) matchType =
     (if toolName = matchType then Some toolId else matchTool rest matchType)"

text \<open>
  The branches of \<open>processCursorLine\<close> on a record whose \<open>type\<close> is the non-empty string
  \<open>event\<close>. \<open>newId\<close> is what \<open>generateToolId()\<close> returns if the call reaches it (it is
  built from the clock and a random number). \<open>if (matchedToolId)\<close> is false for \<open>null\<close>
  and for a falsy key. The result \<open>None\<close> is an exception on its way to the \<open>catch\<close>:
  the only statement of these branches that can throw is the call of
  \<open>formatCursorStatus\<close>, which stands before the first assignment of its branch (on the
  path without a matched tool, nothing has been deleted).
\<close>

definition cursorEvent :: "constants \<Rightarrow> conversions \<Rightarrow> (jsstring \<Rightarrow> jsstring) \<Rightarrow> jsstring
    \<Rightarrow> nat \<Rightarrow> jsstring \<Rightarrow> json \<Rightarrow> AgentState \<Rightarrow> TranscriptContext
    \<Rightarrow> (AgentState \<times> TranscriptContext \<times> effect list) option" where
  "cursorEvent c num basename newId agentId event record agent ctx =
     (if event = js ''beforeSubmitPrompt'' then
        (case turnStarted agentId agent ctx of
           (agent1, ctx1, cleared) \<Rightarrow>
             Some (agent1, ctx1,
                   cleared @ postMessage (webview ctx) (AgentStatus agentId Active)))
      else if event = js ''afterAgentResponse'' \<or> event = js ''stop'' then
        Some (turnEnded agentId agent ctx)
      else if event = js ''beforeShellExecution'' \<or> event = js ''beforeReadFile''
              \<or> event = js ''beforeMCPExecution'' then
        (case formatCursorStatus c num basename event record of
           None \<Rightarrow> None
         | Some status \<Rightarrow>
             (let toolId = Str newId;
                  toolName = (if event = js ''beforeShellExecution'' then js ''Bash''
                              else if event = js ''beforeReadFile'' then js ''Read''
                              else js ''MCP'')
              in Some (agent\<lparr>activeToolIds := set_add toolId (activeToolIds agent),
                             activeToolStatuses :=
                               AList.update toolId status (activeToolStatuses agent),
                             activeToolNames :=
                               AList.update toolId toolName (activeToolNames agent),
                             hadToolsInTurn := True,
                             isWaiting := False\<rparr>,
                       ctx\<lparr>permissionTimers :=
                             startPermissionTimer c agentId (permissionTimers ctx)\<rparr>,
                       postMessage (webview ctx) (AgentStatus agentId Active)
                       @ postMessage (webview ctx) (AgentToolStart agentId toolId status))))
      else if event = js ''afterShellExecution'' \<or> event = js ''afterFileEdit''
              \<or> event = js ''afterMCPExecution'' then
        (let matchType = (if event = js ''afterShellExecution'' then js ''Bash''
                          else if event = js ''afterFileEdit'' then js ''Read''
                          else js ''MCP'');
             matchedToolId = matchTool (activeToolNames agent) matchType;
             matched = (case matchedToolId of
                          None \<Rightarrow> False
                        | Some toolId \<Rightarrow> truthy_value toolId)
         in case
              (if matched then
                 (case matchedToolId of
                    None \<Rightarrow> Some (agent, [])
                  | Some doneId \<Rightarrow>
                      Some (agent\<lparr>activeToolIds := removeAll doneId (activeToolIds agent),
                                  activeToolStatuses :=
                                    AList.delete doneId (activeToolStatuses agent),
                                  activeToolNames :=
                                    AList.delete doneId (activeToolNames agent)\<rparr>,
                            [SetTimeout (TOOL_DONE_DELAY_MS c) (AgentToolDone agentId doneId)]))
               else if event = js ''afterFileEdit'' then
                 (case formatCursorStatus c num basename event record of
                    None \<Rightarrow> None
                  | Some status \<Rightarrow>
                      Some (agent\<lparr>hadToolsInTurn := True\<rparr>,
                            postMessage (webview ctx) (AgentToolStart agentId (Str newId) status)
                            @ [SetTimeout (TOOL_DONE_DELAY_MS c)
                                 (AgentToolDone agentId (Str newId))]))
               else Some (agent, []))
            of
              None \<Rightarrow> None
            | Some (agent1, effects) \<Rightarrow>
                Some (if activeToolIds agent1 = [] then agent1\<lparr>hadToolsInTurn := False\<rparr>
                      else agent1,
                      ctx, effects))
      else Some (agent, ctx, []))"

text \<open>The body of the \<open>try\<close> of \<open>processCursorLine\<close>; \<open>None\<close> is an exception.\<close>

definition tryCursorLine :: "constants \<Rightarrow> conversions \<Rightarrow> (jsstring \<Rightarrow> jsstring) \<Rightarrow> jsstring
    \<Rightarrow> nat \<Rightarrow> jsstring \<Rightarrow> AgentState \<Rightarrow> TranscriptContext
    \<Rightarrow> (AgentState \<times> TranscriptContext \<times> effect list) option" where
  "tryCursorLine c num basename newId agentId line agent ctx =
     (case JSON_parse line of
        None \<Rightarrow> None
      | Some JNull \<Rightarrow> None
      | Some record \<Rightarrow>
          (case event_type record of
             None \<Rightarrow> Some (agent, ctx, [])
           | Some event \<Rightarrow> cursorEvent c num basename newId agentId event record agent ctx))"

text \<open>
  \<open>processCursorLine\<close>, with the same empty \<open>catch\<close>: a line that throws leaves the agent
  and the context as they were and emits nothing.
\<close>

definition processCursorLine :: "constants \<Rightarrow> conversions \<Rightarrow> (jsstring \<Rightarrow> jsstring)
    \<Rightarrow> jsstring \<Rightarrow> nat \<Rightarrow> jsstring \<Rightarrow> AgentState \<Rightarrow> TranscriptContext
    \<Rightarrow> AgentState \<times> TranscriptContext \<times> effect list" where
  "processCursorLine c num basename newId agentId line agent ctx =
     (case tryCursorLine c num basename newId agentId line agent ctx of
        None \<Rightarrow> (agent, ctx, [])
      | Some result \<Rightarrow> result)"

fun feedCursorLines :: "constants \<Rightarrow> conversions \<Rightarrow> (jsstring \<Rightarrow> jsstring) \<Rightarrow> nat
    \<Rightarrow> (jsstring \<times> jsstring) list \<Rightarrow> AgentState \<Rightarrow> TranscriptContext
    \<Rightarrow> AgentState \<times> TranscriptContext \<times> effect list" where
  "feedCursorLines c num basename agentId [] agent ctx = (agent, ctx, [])"
| "feedCursorLines c num basename agentId ((line, newId) # rest) agent ctx =
     (case processCursorLine c num basename newId agentId line agent ctx of
        (agent1, ctx1, effects1) \<Rightarrow>
          (case feedCursorLines c num basename agentId rest agent1 ctx1 of
             (agent2, ctx2, effects2) \<Rightarrow> (agent2, ctx2, effects1 @ effects2)))"

section \<open>The agent record of a new session\<close>

text \<open>
  The object literal with which \<open>launchNewTerminal\<close> and \<open>restoreAgents\<close>
  (agentManager.ts) both create an agent: offset 0, nothing buffered, no tool tracked, no
  flag set.
\<close>

definition newAgent :: "nat \<Rightarrow> ProviderId \<Rightarrow> Terminal option \<Rightarrow> jsstring \<Rightarrow> jsstring
    \<Rightarrow> AgentState" where
  "newAgent i providerId terminal dir file =
     \<lparr>agent_id = i, provider = providerId, terminalRef = terminal,
      projectDir = dir, jsonlFile = file, fileOffset = 0, lineBuffer = [],
      activeToolIds = [], activeToolStatuses = [], activeToolNames = [],
      activeSubagentToolIds = [], activeSubagentToolNames = [],
      isWaiting = False, permissionSent = False, hadToolsInTurn = False\<rparr>"

section \<open>The agent manager (agentManager.ts)\<close>

text \<open>
  The maps and counters that \<open>removeAgent\<close> and \<open>restoreAgents\<close> receive one by one are
  the fields of the view provider that calls them; the model passes them as one record,
  which extends the context of the parsers (it holds the same two timer maps and the
  webview).
\<close>

datatype watcher = Watcher jsstring

record ArcadiaViewProvider = TranscriptContext +
  agents :: "nat \<rightharpoonup> AgentState"
  fileWatchers :: "nat \<rightharpoonup> watcher"
  pollingTimers :: "nat \<rightharpoonup> timer"
  jsonlPollTimers :: "nat \<rightharpoonup> timer"
  knownJsonlFiles :: "jsstring list"
  nextAgentId :: nat
  nextTerminalIndex :: nat

text \<open>
  What the manager does to the outside: timers and watchers it stops, the call of the
  \<open>persistAgents\<close> callback, the call of \<open>ensureProjectScan\<close> (fileWatcher.ts, not among
  the sources) for a directory.
\<close>

datatype manager_effect =
    ClearInterval timer
  | ClearTimeout timer
  | CloseWatcher watcher
  | PersistAgents
  | EnsureProjectScan jsstring

text \<open>
  Modelled from the spec: the \<open>clearTimeout\<close> that \<open>cancelWaitingTimer\<close> and
  \<open>cancelPermissionTimer\<close> (timerManager.ts, not among the sources) issue for the slot
  they empty; none when the slot is empty.
\<close>

definition cancelled :: "nat \<Rightarrow> (nat \<rightharpoonup> timer) \<Rightarrow> manager_effect list" where
  "cancelled agentId timers =
     (case timers agentId of None \<Rightarrow> [] | Some t \<Rightarrow> [ClearTimeout t])"

text \<open>
  \<open>removeAgent\<close>. An id without an agent returns at once. A timer handle and a watcher
  are objects, so \<open>if (jpTimer)\<close> and \<open>?.close()\<close> act exactly when the map has the key.
\<close>

definition removeAgent :: "nat \<Rightarrow> ArcadiaViewProvider
    \<Rightarrow> ArcadiaViewProvider \<times> manager_effect list" where
  "removeAgent agentId view =
     (case agents view agentId of
        None \<Rightarrow> (view, [])
      | Some agent \<Rightarrow>
          (view\<lparr>jsonlPollTimers := (jsonlPollTimers view)(agentId := None),
                fileWatchers := (fileWatchers view)(agentId := None),
                pollingTimers := (pollingTimers view)(agentId := None),
                waitingTimers := cancelWaitingTimer agentId (waitingTimers view),
                permissionTimers := cancelPermissionTimer agentId (permissionTimers view),
                agents := (agents view)(agentId := None)\<rparr>,
           (case jsonlPollTimers view agentId of None \<Rightarrow> [] | Some t \<Rightarrow> [ClearInterval t])
           @ (case fileWatchers view agentId of None \<Rightarrow> [] | Some w \<Rightarrow> [CloseWatcher w])
           @ (case pollingTimers view agentId of None \<Rightarrow> [] | Some t \<Rightarrow> [ClearInterval t])
           @ cancelled agentId (waitingTimers view)
           @ cancelled agentId (permissionTimers view)
           @ [PersistAgents]))"

text \<open>The persisted snapshot of an agent (types.ts); \<open>provider\<close> is optional.\<close>

record PersistedAgent =
  persisted_id :: nat
  persisted_provider :: "ProviderId option"
  terminalName :: jsstring
  persisted_jsonlFile :: jsstring
  persisted_projectDir :: jsstring

text \<open>
  \<open>provider.needsTerminal\<close> of the three registered providers: true for Claude and
  Codex, false for Cursor.
\<close>

definition needsTerminal :: "ProviderId \<Rightarrow> bool" where
  "needsTerminal providerId = (providerId \<noteq> CURSOR)"

text \<open>
  \<open>p.terminalName.match(/#(\d+)$/)\<close> and \<open>parseInt(match[1], 10)\<close>: the name must end
  in a hash sign followed by one or more decimal digits. (\<open>parseInt\<close> is exact below
  \<open>2 ^ 53\<close>; the model is exact throughout.)
\<close>

definition decimal :: "jsstring \<Rightarrow> nat" where
  "decimal ds = foldl (\<lambda>n d. 10 * n + unat (d - 0x30)) 0 ds"

definition terminal_index :: "jsstring \<Rightarrow> nat option" where
  "terminal_index nm =
     (let ds = takeWhile is_digit (rev nm);
          before = dropWhile is_digit (rev nm)
      in case before of
           [] \<Rightarrow> None
         | h # _ \<Rightarrow> if h = 0x23 \<and> ds \<noteq> [] then Some (decimal (rev ds)) else None)"

text \<open>
  Modelled from the spec: \<open>startFileWatching\<close> (fileWatcher.ts) is not among the
  sources. The spec gives each tailed file one watcher and the direct poll; the model
  registers both for the agent and does not touch the agent's state.
\<close>

definition startFileWatching :: "constants \<Rightarrow> nat \<Rightarrow> jsstring \<Rightarrow> ArcadiaViewProvider
    \<Rightarrow> ArcadiaViewProvider" where
  "startFileWatching c agentId filePath view =
     view\<lparr>fileWatchers := (fileWatchers view)(agentId \<mapsto> Watcher filePath),
          pollingTimers :=
            (pollingTimers view)(agentId \<mapsto> Timer (FILE_WATCHER_POLL_INTERVAL_MS c))\<rparr>"

text \<open>
  The variables of the loop of \<open>restoreAgents\<close>: the maps it fills, \<open>maxId\<close>, \<open>maxIdx\<close>
  and \<open>restoredProjectDir\<close> (\<open>None\<close> is \<open>null\<close>).
\<close>

record restore_loop =
  view_of :: ArcadiaViewProvider
  maxId :: nat
  maxIdx :: nat
  restoredProjectDir :: "jsstring option"

text \<open>
  One iteration of the loop, for the snapshot \<open>p\<close>. \<open>liveTerminals\<close> are the terminals
  of the window; \<open>files\<close> is the file system as \<open>fs.existsSync\<close> and \<open>fs.statSync\<close> see
  it: the size of every path that exists. A provider that needs a terminal and finds
  none of the snapshot's name skips the snapshot (\<open>continue\<close>).
\<close>

definition restoreOne :: "constants \<Rightarrow> Terminal list \<Rightarrow> (jsstring \<rightharpoonup> nat) \<Rightarrow> PersistedAgent
    \<Rightarrow> restore_loop \<Rightarrow> restore_loop" where
  "restoreOne c liveTerminals files p loop =
     (let providerId = (case persisted_provider p of None \<Rightarrow> CLAUDE | Some x \<Rightarrow> x);
          found = List.find (\<lambda>t. terminal_name t = terminalName p) liveTerminals
      in if needsTerminal providerId \<and> found = None then loop
         else
           (let terminal = (if needsTerminal providerId then found else None);
                agent = newAgent (persisted_id p) providerId terminal
                          (persisted_projectDir p) (persisted_jsonlFile p);
                view1 = (view_of loop)
                          \<lparr>agents := (agents (view_of loop))(persisted_id p \<mapsto> agent),
                           knownJsonlFiles :=
                             set_add (persisted_jsonlFile p) (knownJsonlFiles (view_of loop))\<rparr>;
                maxId1 = (if persisted_id p > maxId loop then persisted_id p else maxId loop);
                maxIdx1 = (case terminal_index (terminalName p) of
                             None \<Rightarrow> maxIdx loop
                           | Some idx \<Rightarrow> if idx > maxIdx loop then idx else maxIdx loop);
                view2 =
                  (case files (persisted_jsonlFile p) of
                     Some sz \<Rightarrow>
                       startFileWatching c (persisted_id p) (persisted_jsonlFile p)
                         (view1\<lparr>agents :=
                                  (agents view1)(persisted_id p \<mapsto> agent\<lparr>fileOffset := sz\<rparr>)\<rparr>)
                   | None \<Rightarrow>
                       view1\<lparr>jsonlPollTimers :=
                               (jsonlPollTimers view1)
                                 (persisted_id p \<mapsto> Timer (JSONL_POLL_INTERVAL_MS c))\<rparr>)
            in \<lparr>view_of = view2, maxId = maxId1, maxIdx = maxIdx1,
                restoredProjectDir = Some (persisted_projectDir p)\<rparr>))"

fun restoreLoop :: "constants \<Rightarrow> Terminal list \<Rightarrow> (jsstring \<rightharpoonup> nat) \<Rightarrow> PersistedAgent list
    \<Rightarrow> restore_loop \<Rightarrow> restore_loop" where
  "restoreLoop c liveTerminals files [] loop = loop"
| "restoreLoop c liveTerminals files (p # ps) loop =
     restoreLoop c liveTerminals files ps (restoreOne c liveTerminals files p loop)"

text \<open>
  \<open>restoreAgents\<close>: nothing to do for an empty list; otherwise the loop, the two
  counters advanced past what was restored, the cleaned-up list persisted, and the
  project scan started for the last restored directory (when it is not the empty
  string).
\<close>

definition restoreAgents :: "constants \<Rightarrow> Terminal list \<Rightarrow> (jsstring \<rightharpoonup> nat)
    \<Rightarrow> PersistedAgent list \<Rightarrow> ArcadiaViewProvider
    \<Rightarrow> ArcadiaViewProvider \<times> manager_effect list" where
  "restoreAgents c liveTerminals files persisted view =
     (if persisted = [] then (view, [])
      else
        (let loop = restoreLoop c liveTerminals files persisted
                      \<lparr>view_of = view, maxId = 0, maxIdx = 0, restoredProjectDir = None\<rparr>;
             view1 = view_of loop;
             view2 = (if maxId loop \<ge> nextAgentId view1
                      then view1\<lparr>nextAgentId := maxId loop + 1\<rparr> else view1);
             view3 = (if maxIdx loop \<ge> nextTerminalIndex view2
                      then view2\<lparr>nextTerminalIndex := maxIdx loop + 1\<rparr> else view2)
         in (view3,
             PersistAgents #
             (case restoredProjectDir loop of
                None \<Rightarrow> []
              | Some dir \<Rightarrow> if dir = [] then [] else [EnsureProjectScan dir]))))"

section \<open>Properties: vocabulary\<close>

text \<open>
  The keyset invariant of the data model: the keys of \<open>activeToolStatuses\<close> and of
  \<open>activeToolNames\<close> are the members of \<open>activeToolIds\<close>.
\<close>

definition keyset_consistent :: "AgentState \<Rightarrow> bool" where
  "keyset_consistent agent \<longleftrightarrow>
     set (map fst (activeToolStatuses agent)) = set (activeToolIds agent) \<and>
     set (map fst (activeToolNames agent)) = set (activeToolIds agent)"

text \<open>
  A line the parsers discard: \<open>JSON.parse\<close> throws on it, or it parses to \<open>null\<close>, or to
  a value without a non-empty string \<open>type\<close>.
\<close>

definition malformed :: "jsstring \<Rightarrow> bool" where
  "malformed line \<longleftrightarrow>
     (case JSON_parse line of
        None \<Rightarrow> True
      | Some record \<Rightarrow> record = JNull \<or> event_type record = None)"

text \<open>Concrete values for evaluation: constants, a context with a webview, a fresh agent.\<close>

definition constants0 :: constants where
  "constants0 =
     \<lparr>TOOL_DONE_DELAY_MS = 300, TEXT_IDLE_DELAY_MS = 5000,
      PERMISSION_TIMER_DELAY_MS = 7000, BASH_COMMAND_DISPLAY_MAX_LENGTH = 30,
      JSONL_POLL_INTERVAL_MS = 1000, FILE_WATCHER_POLL_INTERVAL_MS = 2000\<rparr>"

definition ctx0 :: TranscriptContext where
  "ctx0 = \<lparr>waitingTimers = Map.empty, permissionTimers = Map.empty, webview = True\<rparr>"

definition agent0 :: AgentState where
  "agent0 = newAgent 1 CODEX None (js ''/home/u/.codex/sessions'') (js ''rollout.jsonl'')"

text \<open>
  The tool name \<open>processCursorLine\<close> records for a tool-start event, and looks for at
  the matching tool-end event.
\<close>

definition cursorToolName :: "jsstring \<Rightarrow> jsstring" where
  "cursorToolName event =
     (if event = js ''beforeShellExecution'' \<or> event = js ''afterShellExecution'' then js ''Bash''
      else if event = js ''beforeReadFile'' \<or> event = js ''afterFileEdit'' then js ''Read''
      else js ''MCP'')"

text \<open>
  The statement that closes every tool-end branch of both parsers:
  \<open>if (agent.activeToolIds.size === 0) agent.hadToolsInTurn = false\<close>.
\<close>

definition resetIfIdle :: "AgentState \<Rightarrow> AgentState" where
  "resetIfIdle agent = (if activeToolIds agent = [] then agent\<lparr>hadToolsInTurn := False\<rparr> else agent)"

text \<open>
  The event a line carries: the \<open>type\<close> of the record it parses to, when the parsers
  read one.
\<close>

definition line_event :: "jsstring \<Rightarrow> jsstring option" where
  "line_event line = (case JSON_parse line of None \<Rightarrow> None | Some record \<Rightarrow> event_type record)"

text \<open>
  Transcript lines of a Codex session: a turn that runs one shell command, an approval
  request, and an event that Codex does not emit.
\<close>

definition line_TurnStarted :: jsstring where
  \<open>line_TurnStarted = js ''{"type":"TurnStarted"}''\<close>
definition line_ExecCommandBegin :: jsstring where
  \<open>line_ExecCommandBegin = js ''{"type":"ExecCommandBegin","id":"a1","command":"ls -la"}''\<close>
definition line_ExecCommandEnd :: jsstring where
  \<open>line_ExecCommandEnd = js ''{"type":"ExecCommandEnd","id":"a1"}''\<close>
definition line_TurnEnded :: jsstring where
  \<open>line_TurnEnded = js ''{"type":"TurnEnded"}''\<close>
definition line_ApprovalRequest :: jsstring where
  \<open>line_ApprovalRequest = js ''{"type":"ApprovalRequest"}''\<close>
definition line_stop :: jsstring where
  \<open>line_stop = js ''{"type":"stop"}''\<close>

text \<open>
  The state of an agent when its turn has ended: no tool is tracked, the agent waits,
  no permission notice is pending, and the webview was told that the agent waits.
\<close>

definition after_turn_end :: "nat \<Rightarrow> AgentState \<times> TranscriptContext \<times> effect list \<Rightarrow> bool" where
  "after_turn_end agentId result \<longleftrightarrow>
     (case result of
        (agent', ctx', effects) \<Rightarrow>
          activeToolIds agent' = [] \<and> activeToolStatuses agent' = [] \<and>
          activeToolNames agent' = [] \<and>
          isWaiting agent' \<and> \<not> permissionSent agent' \<and> \<not> hadToolsInTurn agent' \<and>
          PostMessage (AgentStatus agentId Waiting) \<in> set effects)"

text \<open>
  The Codex agent in the middle of a turn, with the shell tool \<open>a1\<close> open.
\<close>

definition agent_running :: AgentState where
  "agent_running =
     agent0\<lparr>activeToolIds := [Str (js ''a1'')],
            activeToolStatuses := [(Str (js ''a1''), js ''Running: ls -la'')],
            activeToolNames := [(Str (js ''a1''), js ''shell'')],
            hadToolsInTurn := True\<rparr>"

text \<open>
  The transcript of one Codex turn that runs one command. With each line stand the
  random identifier and the address available to its call; no line of this transcript
  uses them, because the command carries its own \<open>id\<close>, a string.
\<close>

definition codex_scenario :: "(jsstring \<times> jsstring \<times> nat) list" where
  "codex_scenario =
     [(line_TurnStarted, [], 0), (line_ExecCommandBegin, [], 1),
      (line_ExecCommandEnd, [], 2), (line_TurnEnded, [], 3)]"


text \<open>
  Hook lines of a Cursor session, and an identifier as \<open>generateToolId\<close> builds them.
\<close>

definition line_beforeShellExecution :: jsstring where
  \<open>line_beforeShellExecution = js ''{"type":"beforeShellExecution","command":"ls"}''\<close>

definition line_afterShellExecution :: jsstring where
  \<open>line_afterShellExecution = js ''{"type":"afterShellExecution"}''\<close>

definition line_afterFileEdit :: jsstring where
  \<open>line_afterFileEdit = js ''{"type":"afterFileEdit","file_path":"/src/app/main.ts"}''\<close>

definition cursor_id :: jsstring where
  "cursor_id = js ''cursor-1700000000000-ab12''"

text \<open>A fresh Cursor agent.\<close>

definition agent_cursor0 :: AgentState where
  "agent_cursor0 =
     newAgent 2 CURSOR None (js ''/w/.cursor/hooks'') (js ''/w/.cursor/hooks/panda.jsonl'')"

text \<open>A Cursor agent with three tools open, started in the order t0, t1, t2.\<close>

definition agent_cursor :: AgentState where
  "agent_cursor =
     agent_cursor0
       \<lparr>activeToolIds := [Str (js ''t0''), Str (js ''t1''), Str (js ''t2'')],
        activeToolStatuses :=
          [(Str (js ''t0''), js ''MCP: search''), (Str (js ''t1''), js ''Running: ls''),
           (Str (js ''t2''), js ''Running: make'')],
        activeToolNames :=
          [(Str (js ''t0''), js ''MCP''), (Str (js ''t1''), js ''Bash''),
           (Str (js ''t2''), js ''Bash'')],
        hadToolsInTurn := True\<rparr>"

text \<open>A Cursor agent with one shell tool open.\<close>

definition agent_cursor_one :: AgentState where
  "agent_cursor_one =
     agent_cursor0
       \<lparr>activeToolIds := [Str (js ''t1'')],
        activeToolStatuses := [(Str (js ''t1''), js ''Running: ls'')],
        activeToolNames := [(Str (js ''t1''), js ''Bash'')],
        hadToolsInTurn := True\<rparr>"



text \<open>
  A context in which the permission timer of an agent runs.
\<close>

definition ctx_armed :: "nat \<Rightarrow> TranscriptContext" where
  "ctx_armed agentId = ctx0\<lparr>permissionTimers := [agentId \<mapsto> Timer 7000]\<rparr>"

text \<open>
  Watchers and timers belong to registered agents: every key of the five per-agent maps
  is a key of \<open>agents\<close>.
\<close>

definition timers_owned :: "ArcadiaViewProvider \<Rightarrow> bool" where
  "timers_owned view \<longleftrightarrow>
     dom (fileWatchers view) \<subseteq> dom (agents view) \<and>
     dom (pollingTimers view) \<subseteq> dom (agents view) \<and>
     dom (waitingTimers view) \<subseteq> dom (agents view) \<and>
     dom (permissionTimers view) \<subseteq> dom (agents view) \<and>
     dom (jsonlPollTimers view) \<subseteq> dom (agents view)"

text \<open>
  No trace of an agent is left: none of the six maps has its id.
\<close>

definition absent :: "nat \<Rightarrow> ArcadiaViewProvider \<Rightarrow> bool" where
  "absent agentId view \<longleftrightarrow>
     agents view agentId = None \<and> fileWatchers view agentId = None \<and>
     pollingTimers view agentId = None \<and> waitingTimers view agentId = None \<and>
     permissionTimers view agentId = None \<and> jsonlPollTimers view agentId = None"

text \<open>
  The watcher and the timers of an agent that are stopped when the agent is removed, in
  the order \<open>removeAgent\<close> stops them.
\<close>

definition stops :: "nat \<Rightarrow> ArcadiaViewProvider \<Rightarrow> manager_effect list" where
  "stops agentId view =
     (case jsonlPollTimers view agentId of None \<Rightarrow> [] | Some t \<Rightarrow> [ClearInterval t])
     @ (case fileWatchers view agentId of None \<Rightarrow> [] | Some w \<Rightarrow> [CloseWatcher w])
     @ (case pollingTimers view agentId of None \<Rightarrow> [] | Some t \<Rightarrow> [ClearInterval t])
     @ (case waitingTimers view agentId of None \<Rightarrow> [] | Some t \<Rightarrow> [ClearTimeout t])
     @ (case permissionTimers view agentId of None \<Rightarrow> [] | Some t \<Rightarrow> [ClearTimeout t])"

text \<open>
  Concrete view providers: an empty one, and one that tails the transcript of the
  running Codex agent.
\<close>

definition view0 :: ArcadiaViewProvider where
  "view0 =
     \<lparr>waitingTimers = Map.empty, permissionTimers = Map.empty, webview = True,
      agents = Map.empty, fileWatchers = Map.empty, pollingTimers = Map.empty,
      jsonlPollTimers = Map.empty, knownJsonlFiles = [], nextAgentId = 1,
      nextTerminalIndex = 1\<rparr>"

definition view_tailing :: ArcadiaViewProvider where
  "view_tailing =
     view0\<lparr>agents := [1 \<mapsto> agent_running],
           fileWatchers := [1 \<mapsto> Watcher (js ''rollout.jsonl'')],
           pollingTimers := [1 \<mapsto> Timer 2000],
           permissionTimers := [1 \<mapsto> Timer 7000]\<rparr>"

text \<open>
  The transient tracking state of an agent is empty, as \<open>restoreAgents\<close> builds it.
\<close>

definition transient_empty :: "AgentState \<Rightarrow> bool" where
  "transient_empty agent \<longleftrightarrow>
     activeToolIds agent = [] \<and> activeToolStatuses agent = [] \<and> activeToolNames agent = [] \<and>
     activeSubagentToolIds agent = [] \<and> activeSubagentToolNames agent = [] \<and>
     lineBuffer agent = [] \<and>
     \<not> isWaiting agent \<and> \<not> permissionSent agent \<and> \<not> hadToolsInTurn agent"

text \<open>
  The read offset of an agent stands at the end of its transcript as the file system
  \<open>files\<close> has it, or at 0 when the file does not exist.
\<close>

definition fast_forwarded :: "(jsstring \<rightharpoonup> nat) \<Rightarrow> AgentState \<Rightarrow> bool" where
  "fast_forwarded files agent \<longleftrightarrow>
     (case files (jsonlFile agent) of
        None \<Rightarrow> fileOffset agent = 0
      | Some sz \<Rightarrow> fileOffset agent = sz)"

text \<open>
  The registry entry of a restored agent.
\<close>

definition restored_as :: "(jsstring \<rightharpoonup> nat) \<Rightarrow> nat \<Rightarrow> AgentState option \<Rightarrow> bool" where
  "restored_as files i entry \<longleftrightarrow>
     (case entry of
        None \<Rightarrow> False
      | Some agent \<Rightarrow> agent_id agent = i \<and> transient_empty agent \<and> fast_forwarded files agent)"

text \<open>
  A snapshot that \<open>restoreAgents\<close> does not skip: its provider needs no terminal, or a
  live terminal has the snapshot's terminal name.
\<close>

definition restorable :: "Terminal list \<Rightarrow> PersistedAgent \<Rightarrow> bool" where
  "restorable liveTerminals p \<longleftrightarrow>
     (let providerId = (case persisted_provider p of None \<Rightarrow> CLAUDE | Some x \<Rightarrow> x)
      in needsTerminal providerId
           \<longrightarrow> List.find (\<lambda>t. terminal_name t = terminalName p) liveTerminals \<noteq> None)"

text \<open>A snapshot of a Codex agent whose terminal is alive and whose transcript exists.\<close>

definition snapshot_codex :: PersistedAgent where
  "snapshot_codex =
     \<lparr>persisted_id = 4, persisted_provider = Some CODEX, terminalName = js ''Codex #3'',
      persisted_jsonlFile = js ''/s/a.jsonl'', persisted_projectDir = js ''/s''\<rparr>"

text \<open>A snapshot of a Cursor agent, which has no terminal; its transcript does not exist.\<close>

definition snapshot_cursor :: PersistedAgent where
  "snapshot_cursor =
     \<lparr>persisted_id = 5, persisted_provider = Some CURSOR, terminalName = js ''cursor'',
      persisted_jsonlFile = js ''/w/panda.jsonl'', persisted_projectDir = js ''/w''\<rparr>"

text \<open>
  The live terminals and the file system of the example.
\<close>

definition terminals0 :: "Terminal list" where
  "terminals0 = [\<lparr>terminal_handle = 9, terminal_name = js ''Codex #3''\<rparr>]"

definition files0 :: "jsstring \<rightharpoonup> nat" where
  "files0 = [js ''/s/a.jsonl'' \<mapsto> 4096]"

text \<open>
  Lines whose fields are not strings: a command given as an array of words, a command
  given as an object with a member named \<open>toString\<close>, and a file path given as an array.
\<close>

definition line_array_command :: jsstring where
  \<open>line_array_command = js ''{"type":"ExecCommandBegin","id":"a1","command":["ls","-la"]}''\<close>

definition line_object_command :: jsstring where
  \<open>line_object_command =
     js ''{"type":"ExecCommandBegin","id":"a1","command":{"toString":null}}''\<close>

definition line_array_path :: jsstring where
  \<open>line_array_path = js ''{"type":"beforeReadFile","file_path":["main.ts"]}''\<close>


section \<open>Properties: auxiliary facts\<close>

lemma code_unit_of_char_inj:
  "(of_nat (of_char x) :: 16 word) = of_nat (of_char y) \<longleftrightarrow> x = y"
proof -
  have "(of_char x :: nat) < 2 ^ 16" "(of_char y :: nat) < 2 ^ 16"
    by (rule less_trans [OF nat_of_char_less_256], simp)+
  then show ?thesis
    by (simp add: word_of_nat_eq_iff take_bit_nat_eq_self)
qed

lemma js_eq_iff [simp]: "js a = js b \<longleftrightarrow> a = b"
proof -
  have "inj (\<lambda>c. of_nat (of_char c) :: 16 word)"
    by (rule injI) (simp add: code_unit_of_char_inj)
  then show ?thesis
    unfolding js_def by (rule inj_map_eq_map)
qed

lemma js_Nil [simp]: "js s = [] \<longleftrightarrow> s = []" "[] = js s \<longleftrightarrow> s = []"
  by (auto simp: js_def)

lemma length_js [simp]: "length (js s) = length s"
  by (simp add: js_def)

lemma js_append: "js a @ js b = js (a @ b)"
  by (simp add: js_def)

lemma set_set_add: "set (set_add x xs) = insert x (set xs)"
  by (auto simp: set_add_def)

lemma keys_update: "fst ` set (AList.update k v al) = insert k (fst ` set al)"
  by (induction al) auto

lemma removeAll_Nil_iff: "removeAll x xs = [] \<longleftrightarrow> set xs \<subseteq> {x}"
  by (induction xs) auto

lemma keys_delete: "fst ` set (AList.delete k al) = fst ` set al - {k}"
  by (induction al) auto

subsection \<open>The branches of the Codex parser\<close>

lemma codexEvent_TurnStarted:
  "codexEvent c num uuid ref agentId (js ''TurnStarted'') record agent ctx =
     (case turnStarted agentId agent ctx of
        (agent1, ctx1, cleared) \<Rightarrow>
          Some (agent1, ctx1, cleared @ postMessage (webview ctx) (AgentStatus agentId Active)))"
  by (simp add: codexEvent_def)

lemma codexEvent_TurnEnded:
  "codexEvent c num uuid ref agentId (js ''TurnEnded'') record agent ctx
     = Some (turnEnded agentId agent ctx)"
  by (simp add: codexEvent_def)

lemma codexEvent_ExecCommandBegin:
  "codexEvent c num uuid ref agentId (js ''ExecCommandBegin'') record agent ctx =
     (case command_status c num record of
        None \<Rightarrow> None
      | Some status \<Rightarrow>
          Some (agent\<lparr>activeToolIds := set_add (codexToolId num uuid ref record) (activeToolIds agent),
                      activeToolStatuses :=
                        AList.update (codexToolId num uuid ref record) status
                          (activeToolStatuses agent),
                      activeToolNames :=
                        AList.update (codexToolId num uuid ref record) (js ''shell'')
                          (activeToolNames agent),
                      hadToolsInTurn := True,
                      isWaiting := False\<rparr>,
                ctx\<lparr>permissionTimers :=
                      startPermissionTimer c agentId (permissionTimers ctx)\<rparr>,
                postMessage (webview ctx) (AgentStatus agentId Active)
                @ postMessage (webview ctx)
                    (AgentToolStart agentId (codexToolId num uuid ref record) status)))"
  by (simp add: codexEvent_def formatCodexToolStatus_def Let_def)

lemma codexEvent_ExecCommandEnd:
  "codexEvent c num uuid ref agentId (js ''ExecCommandEnd'') record agent ctx =
     (case field_in num ref record (js ''id'') (activeToolIds agent) of
        Some toolId \<Rightarrow>
          Some (resetIfIdle (agent\<lparr>activeToolIds := removeAll toolId (activeToolIds agent),
                  activeToolStatuses := AList.delete toolId (activeToolStatuses agent),
                  activeToolNames := AList.delete toolId (activeToolNames agent)\<rparr>),
                ctx, [SetTimeout (TOOL_DONE_DELAY_MS c) (AgentToolDone agentId toolId)])
      | None \<Rightarrow> Some (resetIfIdle agent, ctx, []))"
  by (simp add: codexEvent_def resetIfIdle_def split: option.splits)

lemma codexEvent_ApprovalRequest:
  "codexEvent c num uuid ref agentId (js ''ApprovalRequest'') record agent ctx =
        Some (agent\<lparr>permissionSent := True\<rparr>, ctx,
              postMessage (webview ctx) (AgentToolPermission agentId))"
  by (simp add: codexEvent_def)

lemma codexEvent_UserMessage:
  "codexEvent c num uuid ref agentId (js ''UserMessage'') record agent ctx
     = Some (turnStarted agentId agent ctx)"
  by (simp add: codexEvent_def)

lemma codexEvent_other:
  "eventType \<noteq> js ''TurnStarted'' \<Longrightarrow> eventType \<noteq> js ''TurnEnded'' \<Longrightarrow>
   eventType \<noteq> js ''ExecCommandBegin'' \<Longrightarrow> eventType \<noteq> js ''ExecCommandEnd'' \<Longrightarrow>
   eventType \<noteq> js ''UserMessage'' \<Longrightarrow>
   \<exists>ctx'. codexEvent c num uuid ref agentId eventType record agent ctx
     = Some (agent\<lparr>permissionSent := permissionSent agent \<or> eventType = js ''ApprovalRequest''\<rparr>,
         ctx',
         if eventType = js ''ApprovalRequest''
         then postMessage (webview ctx) (AgentToolPermission agentId) else [])"
  by (auto simp add: codexEvent_def split: option.splits)


subsection \<open>The branches of the Cursor parser\<close>

lemma cursorEvent_beforeSubmitPrompt:
  "cursorEvent c num basename newId agentId (js ''beforeSubmitPrompt'') record agent ctx =
     (case turnStarted agentId agent ctx of
        (agent1, ctx1, cleared) \<Rightarrow>
          Some (agent1, ctx1, cleared @ postMessage (webview ctx) (AgentStatus agentId Active)))"
  by (simp add: cursorEvent_def)

lemma cursorEvent_turn_end:
  "event = js ''afterAgentResponse'' \<or> event = js ''stop'' \<Longrightarrow>
   cursorEvent c num basename newId agentId event record agent ctx
     = Some (turnEnded agentId agent ctx)"
  by (auto simp add: cursorEvent_def)

lemma cursorEvent_tool_start:
  "event = js ''beforeShellExecution'' \<or> event = js ''beforeReadFile''
     \<or> event = js ''beforeMCPExecution'' \<Longrightarrow>
   cursorEvent c num basename newId agentId event record agent ctx =
     (case formatCursorStatus c num basename event record of
        None \<Rightarrow> None
      | Some status \<Rightarrow>
          Some (agent\<lparr>activeToolIds := set_add (Str newId) (activeToolIds agent),
                      activeToolStatuses :=
                        AList.update (Str newId) status (activeToolStatuses agent),
                      activeToolNames :=
                        AList.update (Str newId) (cursorToolName event) (activeToolNames agent),
                      hadToolsInTurn := True,
                      isWaiting := False\<rparr>,
                ctx\<lparr>permissionTimers := startPermissionTimer c agentId (permissionTimers ctx)\<rparr>,
                postMessage (webview ctx) (AgentStatus agentId Active)
                @ postMessage (webview ctx) (AgentToolStart agentId (Str newId) status)))"
  by (elim disjE) (simp_all add: cursorEvent_def cursorToolName_def Let_def split: option.splits)

lemma cursorEvent_tool_done_matched:
  assumes "event = js ''afterShellExecution'' \<or> event = js ''afterFileEdit''
     \<or> event = js ''afterMCPExecution''"
    and "matchTool (activeToolNames agent) (cursorToolName event) = Some doneId"
    and "truthy_value doneId"
  shows "cursorEvent c num basename newId agentId event record agent ctx =
     Some (resetIfIdle (agent\<lparr>activeToolIds := removeAll doneId (activeToolIds agent),
                    activeToolStatuses := AList.delete doneId (activeToolStatuses agent),
                    activeToolNames := AList.delete doneId (activeToolNames agent)\<rparr>),
           ctx, [SetTimeout (TOOL_DONE_DELAY_MS c) (AgentToolDone agentId doneId)])"
  using assms(1)
  by (elim disjE)
    (insert assms(2-), simp_all add: cursorEvent_def cursorToolName_def resetIfIdle_def Let_def)

lemma cursorEvent_tool_done_unmatched:
  assumes "event = js ''afterShellExecution'' \<or> event = js ''afterMCPExecution''"
    and "\<forall>doneId. matchTool (activeToolNames agent) (cursorToolName event) = Some doneId
           \<longrightarrow> \<not> truthy_value doneId"
  shows "cursorEvent c num basename newId agentId event record agent ctx =
     Some (resetIfIdle agent, ctx, [])"
  using assms(1)
  by (elim disjE)
    (insert assms(2), auto simp add: cursorEvent_def cursorToolName_def resetIfIdle_def Let_def
       split: option.splits)

lemma cursorEvent_synthetic_edit:
  assumes "\<forall>doneId. matchTool (activeToolNames agent) (js ''Read'') = Some doneId
           \<longrightarrow> \<not> truthy_value doneId"
  shows "cursorEvent c num basename newId agentId (js ''afterFileEdit'') record agent ctx =
     (case formatCursorStatus c num basename (js ''afterFileEdit'') record of
        None \<Rightarrow> None
      | Some status \<Rightarrow>
          Some (resetIfIdle (agent\<lparr>hadToolsInTurn := True\<rparr>), ctx,
                postMessage (webview ctx) (AgentToolStart agentId (Str newId) status)
                @ [SetTimeout (TOOL_DONE_DELAY_MS c) (AgentToolDone agentId (Str newId))]))"
  using assms
  by (auto simp add: cursorEvent_def resetIfIdle_def Let_def split: option.splits)

lemma cursorEvent_other:
  "event \<noteq> js ''beforeSubmitPrompt'' \<Longrightarrow> event \<noteq> js ''afterAgentResponse'' \<Longrightarrow>
   event \<noteq> js ''stop'' \<Longrightarrow> event \<noteq> js ''beforeShellExecution'' \<Longrightarrow>
   event \<noteq> js ''beforeReadFile'' \<Longrightarrow> event \<noteq> js ''beforeMCPExecution'' \<Longrightarrow>
   event \<noteq> js ''afterShellExecution'' \<Longrightarrow> event \<noteq> js ''afterFileEdit'' \<Longrightarrow>
   event \<noteq> js ''afterMCPExecution'' \<Longrightarrow>
   cursorEvent c num basename newId agentId event record agent ctx = Some (agent, ctx, [])"
  by (simp add: cursorEvent_def)

text \<open>
  Every branch of the Cursor parser either throws or ends in one of these shapes; the
  case distinction that the proofs about all lines share.
\<close>

lemma cursorEvent_shapes:
  assumes "cursorEvent c num basename newId agentId event record agent ctx
           = Some (agent', ctx', eff)"
  shows "agent' = fst (turnStarted agentId agent ctx)
       \<or> agent' = fst (turnEnded agentId agent ctx)
       \<or> (\<exists>t s n. agent' = agent\<lparr>activeToolIds := set_add t (activeToolIds agent),
              activeToolStatuses := AList.update t s (activeToolStatuses agent),
              activeToolNames := AList.update t n (activeToolNames agent),
              hadToolsInTurn := True, isWaiting := False\<rparr>)
       \<or> (\<exists>t. agent' = resetIfIdle (agent\<lparr>activeToolIds := removeAll t (activeToolIds agent),
              activeToolStatuses := AList.delete t (activeToolStatuses agent),
              activeToolNames := AList.delete t (activeToolNames agent)\<rparr>))
       \<or> agent' = resetIfIdle agent
       \<or> agent' = resetIfIdle (agent\<lparr>hadToolsInTurn := True\<rparr>)
       \<or> agent' = agent"
proof -
  let ?m = "matchTool (activeToolNames agent) (cursorToolName event)"
  consider (ts) "event = js ''beforeSubmitPrompt''"
    | (te) "event = js ''afterAgentResponse'' \<or> event = js ''stop''"
    | (b) "event = js ''beforeShellExecution'' \<or> event = js ''beforeReadFile''
            \<or> event = js ''beforeMCPExecution''"
    | (m) doneId where "event = js ''afterShellExecution'' \<or> event = js ''afterFileEdit''
            \<or> event = js ''afterMCPExecution''" "?m = Some doneId" "truthy_value doneId"
    | (u) "event = js ''afterShellExecution'' \<or> event = js ''afterMCPExecution''"
          "\<forall>doneId. ?m = Some doneId \<longrightarrow> \<not> truthy_value doneId"
    | (s) "event = js ''afterFileEdit''"
          "\<forall>doneId. ?m = Some doneId \<longrightarrow> \<not> truthy_value doneId"
    | (other) "event \<noteq> js ''beforeSubmitPrompt''" "event \<noteq> js ''afterAgentResponse''"
       "event \<noteq> js ''stop''" "event \<noteq> js ''beforeShellExecution''"
       "event \<noteq> js ''beforeReadFile''" "event \<noteq> js ''beforeMCPExecution''"
       "event \<noteq> js ''afterShellExecution''" "event \<noteq> js ''afterFileEdit''"
       "event \<noteq> js ''afterMCPExecution''"
    by (cases ?m) blast+
  then show ?thesis
  proof cases
    case ts
    with assms have "agent' = fst (turnStarted agentId agent ctx)"
      by (simp add: cursorEvent_beforeSubmitPrompt split: prod.splits)
    then show ?thesis by simp
  next
    case te
    with assms have "agent' = fst (turnEnded agentId agent ctx)"
      by (simp add: cursorEvent_turn_end)
    then show ?thesis by simp
  next
    case b
    from assms have "\<exists>s. agent' =
        agent\<lparr>activeToolIds := set_add (Str newId) (activeToolIds agent),
          activeToolStatuses := AList.update (Str newId) s (activeToolStatuses agent),
          activeToolNames := AList.update (Str newId) (cursorToolName event) (activeToolNames agent),
          hadToolsInTurn := True, isWaiting := False\<rparr>"
      by (auto simp: cursorEvent_tool_start [OF b] split: option.splits)
    then show ?thesis by blast
  next
    case m
    from assms have "agent' = resetIfIdle (agent\<lparr>activeToolIds := removeAll doneId (activeToolIds agent),
                    activeToolStatuses := AList.delete doneId (activeToolStatuses agent),
                    activeToolNames := AList.delete doneId (activeToolNames agent)\<rparr>)"
      by (simp add: cursorEvent_tool_done_matched [OF m])
    then show ?thesis by blast
  next
    case u
    from assms have "agent' = resetIfIdle agent"
      by (simp add: cursorEvent_tool_done_unmatched [OF u])
    then show ?thesis by simp
  next
    case s
    have "?m = matchTool (activeToolNames agent) (js ''Read'')"
      using s(1) by (simp add: cursorToolName_def)
    with s(2) have "\<forall>doneId. matchTool (activeToolNames agent) (js ''Read'') = Some doneId
           \<longrightarrow> \<not> truthy_value doneId" by simp
    from assms cursorEvent_synthetic_edit [OF this, of c num basename newId agentId "record" ctx]
    have "agent' = resetIfIdle (agent\<lparr>hadToolsInTurn := True\<rparr>)"
      using s(1) by (auto split: option.splits)
    then show ?thesis by simp
  next
    case other
    from cursorEvent_other [OF other, of c num basename newId agentId "record" agent ctx] assms
    have "agent' = agent" by simp
    then show ?thesis by simp
  qed
qed

lemma codexEvent_shapes:
  assumes "codexEvent c num uuid ref agentId eventType record agent ctx
           = Some (agent', ctx', eff)"
  shows "agent' = fst (turnStarted agentId agent ctx)
       \<or> agent' = fst (turnEnded agentId agent ctx)
       \<or> (\<exists>t s n. agent' = agent\<lparr>activeToolIds := set_add t (activeToolIds agent),
              activeToolStatuses := AList.update t s (activeToolStatuses agent),
              activeToolNames := AList.update t n (activeToolNames agent),
              hadToolsInTurn := True, isWaiting := False\<rparr>)
       \<or> (\<exists>t. agent' = resetIfIdle (agent\<lparr>activeToolIds := removeAll t (activeToolIds agent),
              activeToolStatuses := AList.delete t (activeToolStatuses agent),
              activeToolNames := AList.delete t (activeToolNames agent)\<rparr>))
       \<or> agent' = resetIfIdle agent
       \<or> (\<exists>p. agent' = agent\<lparr>permissionSent := p\<rparr>)"
proof -
  consider (ts) "eventType = js ''TurnStarted''" | (te) "eventType = js ''TurnEnded''"
    | (b) "eventType = js ''ExecCommandBegin''" | (e) "eventType = js ''ExecCommandEnd''"
    | (um) "eventType = js ''UserMessage''"
    | (other) "eventType \<noteq> js ''TurnStarted''" "eventType \<noteq> js ''TurnEnded''"
       "eventType \<noteq> js ''ExecCommandBegin''" "eventType \<noteq> js ''ExecCommandEnd''"
       "eventType \<noteq> js ''UserMessage''"
    by blast
  then show ?thesis
  proof cases
    case ts
    with assms have "agent' = fst (turnStarted agentId agent ctx)"
      by (simp add: codexEvent_TurnStarted split: prod.splits)
    then show ?thesis by simp
  next
    case te
    with assms have "agent' = fst (turnEnded agentId agent ctx)"
      by (simp add: codexEvent_TurnEnded)
    then show ?thesis by simp
  next
    case b
    with assms have "\<exists>s. agent' =
        agent\<lparr>activeToolIds := set_add (codexToolId num uuid ref record) (activeToolIds agent),
          activeToolStatuses :=
            AList.update (codexToolId num uuid ref record) s (activeToolStatuses agent),
          activeToolNames :=
            AList.update (codexToolId num uuid ref record) (js ''shell'') (activeToolNames agent),
          hadToolsInTurn := True, isWaiting := False\<rparr>"
      by (auto simp: codexEvent_ExecCommandBegin split: option.splits)
    then show ?thesis by blast
  next
    case e
    with assms show ?thesis
      by (auto simp: codexEvent_ExecCommandEnd split: option.splits)
  next
    case um
    with assms have "agent' = fst (turnStarted agentId agent ctx)"
      by (simp add: codexEvent_UserMessage)
    then show ?thesis by simp
  next
    case other
    from codexEvent_other [OF other, of c num uuid ref agentId "record" agent ctx] assms
    have "agent' = agent\<lparr>permissionSent := permissionSent agent \<or> eventType = js ''ApprovalRequest''\<rparr>"
      by auto
    then show ?thesis by blast
  qed
qed

subsection \<open>Lines and their events\<close>

lemma processCodexLine_cases:
  "processCodexLine c num uuid ref agentId line agent ctx = (agent, ctx, []) \<or>
   (\<exists>record eventType. JSON_parse line = Some record \<and> event_type record = Some eventType \<and>
      codexEvent c num uuid ref agentId eventType record agent ctx
        = Some (processCodexLine c num uuid ref agentId line agent ctx))"
  by (auto simp: processCodexLine_def tryCodexLine_def split: option.splits json.splits)

lemma processCursorLine_cases:
  "processCursorLine c num basename newId agentId line agent ctx = (agent, ctx, []) \<or>
   (\<exists>record event. JSON_parse line = Some record \<and> event_type record = Some event \<and>
      cursorEvent c num basename newId agentId event record agent ctx
        = Some (processCursorLine c num basename newId agentId line agent ctx))"
  by (auto simp: processCursorLine_def tryCursorLine_def split: option.splits json.splits)

lemma line_event_codex:
  assumes "line_event line = Some eventType"
  shows "\<exists>record. JSON_parse line = Some record \<and> event_type record = Some eventType \<and>
           tryCodexLine c num uuid ref agentId line agent ctx
           = codexEvent c num uuid ref agentId eventType record agent ctx"
  using assms
  by (auto simp: line_event_def tryCodexLine_def event_type_def
      split: option.splits json.splits)

lemma line_event_cursor:
  assumes "line_event line = Some event"
  shows "\<exists>record. JSON_parse line = Some record \<and> event_type record = Some event \<and>
           tryCursorLine c num basename newId agentId line agent ctx
           = cursorEvent c num basename newId agentId event record agent ctx"
  using assms
  by (auto simp: line_event_def tryCursorLine_def event_type_def
      split: option.splits json.splits)

lemma processCodexLine_try:
  "tryCodexLine c num uuid ref agentId line agent ctx = Some result \<Longrightarrow>
   processCodexLine c num uuid ref agentId line agent ctx = result"
  "tryCodexLine c num uuid ref agentId line agent ctx = None \<Longrightarrow>
   processCodexLine c num uuid ref agentId line agent ctx = (agent, ctx, [])"
  by (simp_all add: processCodexLine_def)

lemma processCursorLine_try:
  "tryCursorLine c num basename newId agentId line agent ctx = Some result \<Longrightarrow>
   processCursorLine c num basename newId agentId line agent ctx = result"
  "tryCursorLine c num basename newId agentId line agent ctx = None \<Longrightarrow>
   processCursorLine c num basename newId agentId line agent ctx = (agent, ctx, [])"
  by (simp_all add: processCursorLine_def)

subsection \<open>The keyset invariant\<close>

lemma turnEnded_keyset:
  "keyset_consistent agent \<Longrightarrow> keyset_consistent (fst (turnEnded agentId agent ctx))"
  by (auto simp: turnEnded_def keyset_consistent_def Let_def split: if_splits)

lemma turnStarted_keyset:
  "keyset_consistent (fst (turnStarted agentId agent ctx))"
  by (auto simp: turnStarted_def clearAgentActivity_def keyset_consistent_def Let_def
      split: if_splits)

lemma keyset_flags [simp]:
  "keyset_consistent (agent\<lparr>hadToolsInTurn := h\<rparr>) = keyset_consistent agent"
  "keyset_consistent (agent\<lparr>isWaiting := w\<rparr>) = keyset_consistent agent"
  "keyset_consistent (agent\<lparr>permissionSent := p\<rparr>) = keyset_consistent agent"
  by (simp_all add: keyset_consistent_def)

lemma keyset_resetIfIdle [simp]: "keyset_consistent (resetIfIdle agent) = keyset_consistent agent"
  by (simp add: resetIfIdle_def)

lemma keyset_add:
  "keyset_consistent agent \<Longrightarrow>
   keyset_consistent (agent\<lparr>activeToolIds := set_add t (activeToolIds agent),
       activeToolStatuses := AList.update t s (activeToolStatuses agent),
       activeToolNames := AList.update t n (activeToolNames agent)\<rparr>)"
  by (simp add: keyset_consistent_def set_set_add keys_update)

lemma keyset_remove:
  "keyset_consistent agent \<Longrightarrow>
   keyset_consistent (agent\<lparr>activeToolIds := removeAll t (activeToolIds agent),
       activeToolStatuses := AList.delete t (activeToolStatuses agent),
       activeToolNames := AList.delete t (activeToolNames agent)\<rparr>)"
  by (simp add: keyset_consistent_def keys_delete)

lemma shapes_keyset:
  assumes "keyset_consistent agent"
    and "agent' = fst (turnStarted agentId agent ctx)
       \<or> agent' = fst (turnEnded agentId agent ctx)
       \<or> (\<exists>t s n. agent' = agent\<lparr>activeToolIds := set_add t (activeToolIds agent),
              activeToolStatuses := AList.update t s (activeToolStatuses agent),
              activeToolNames := AList.update t n (activeToolNames agent),
              hadToolsInTurn := True, isWaiting := False\<rparr>)
       \<or> (\<exists>t. agent' = resetIfIdle (agent\<lparr>activeToolIds := removeAll t (activeToolIds agent),
              activeToolStatuses := AList.delete t (activeToolStatuses agent),
              activeToolNames := AList.delete t (activeToolNames agent)\<rparr>))
       \<or> agent' = resetIfIdle agent
       \<or> agent' = resetIfIdle (agent\<lparr>hadToolsInTurn := True\<rparr>)
       \<or> (\<exists>p. agent' = agent\<lparr>permissionSent := p\<rparr>)
       \<or> agent' = agent"
  shows "keyset_consistent agent'"
  using assms(2)
proof (elim disjE exE)
  assume "agent' = fst (turnStarted agentId agent ctx)"
  then show ?thesis by (simp add: turnStarted_keyset)
next
  assume "agent' = fst (turnEnded agentId agent ctx)"
  then show ?thesis by (simp add: turnEnded_keyset assms(1))
next
  fix t s n
  assume "agent' = agent\<lparr>activeToolIds := set_add t (activeToolIds agent),
              activeToolStatuses := AList.update t s (activeToolStatuses agent),
              activeToolNames := AList.update t n (activeToolNames agent),
              hadToolsInTurn := True, isWaiting := False\<rparr>"
  then show ?thesis by (simp add: keyset_add [OF assms(1)])
next
  fix t
  assume "agent' = resetIfIdle (agent\<lparr>activeToolIds := removeAll t (activeToolIds agent),
              activeToolStatuses := AList.delete t (activeToolStatuses agent),
              activeToolNames := AList.delete t (activeToolNames agent)\<rparr>)"
  then show ?thesis by (simp only: keyset_resetIfIdle keyset_remove [OF assms(1)])
next
  assume "agent' = resetIfIdle agent"
  then show ?thesis using assms(1) by simp
next
  assume "agent' = resetIfIdle (agent\<lparr>hadToolsInTurn := True\<rparr>)"
  then show ?thesis using assms(1) by simp
next
  fix p
  assume "agent' = agent\<lparr>permissionSent := p\<rparr>"
  then show ?thesis using assms(1) by simp
next
  assume "agent' = agent"
  then show ?thesis using assms(1) by simp
qed

lemma codexEvent_keyset:
  assumes "keyset_consistent agent"
    and "codexEvent c num uuid ref agentId eventType record agent ctx = Some (agent', ctx', eff)"
  shows "keyset_consistent agent'"
  using codexEvent_shapes [OF assms(2)] by (intro shapes_keyset [OF assms(1)]) blast

lemma cursorEvent_keyset:
  assumes "keyset_consistent agent"
    and "cursorEvent c num basename newId agentId event record agent ctx
         = Some (agent', ctx', eff)"
  shows "keyset_consistent agent'"
  using cursorEvent_shapes [OF assms(2)] by (intro shapes_keyset [OF assms(1)]) blast

lemma processCodexLine_keyset:
  assumes "keyset_consistent agent"
  shows "keyset_consistent (fst (processCodexLine c num uuid ref agentId line agent ctx))"
proof -
  from processCodexLine_cases [of c num uuid ref agentId line agent ctx]
  show ?thesis
  proof (elim disjE exE conjE)
    assume "processCodexLine c num uuid ref agentId line agent ctx = (agent, ctx, [])"
    with assms show ?thesis by simp
  next
    fix r e
    assume "codexEvent c num uuid ref agentId e r agent ctx
        = Some (processCodexLine c num uuid ref agentId line agent ctx)"
    then have "codexEvent c num uuid ref agentId e r agent ctx
        = Some (fst (processCodexLine c num uuid ref agentId line agent ctx),
                fst (snd (processCodexLine c num uuid ref agentId line agent ctx)),
                snd (snd (processCodexLine c num uuid ref agentId line agent ctx)))" by simp
    from codexEvent_keyset [OF assms this] show ?thesis .
  qed
qed

lemma processCursorLine_keyset:
  assumes "keyset_consistent agent"
  shows "keyset_consistent (fst (processCursorLine c num basename newId agentId line agent ctx))"
proof -
  from processCursorLine_cases [of c num basename newId agentId line agent ctx]
  show ?thesis
  proof (elim disjE exE conjE)
    assume "processCursorLine c num basename newId agentId line agent ctx = (agent, ctx, [])"
    with assms show ?thesis by simp
  next
    fix r e
    assume "cursorEvent c num basename newId agentId e r agent ctx
        = Some (processCursorLine c num basename newId agentId line agent ctx)"
    then have "cursorEvent c num basename newId agentId e r agent ctx
        = Some (fst (processCursorLine c num basename newId agentId line agent ctx),
                fst (snd (processCursorLine c num basename newId agentId line agent ctx)),
                snd (snd (processCursorLine c num basename newId agentId line agent ctx)))" by simp
    from cursorEvent_keyset [OF assms this] show ?thesis .
  qed
qed

subsection \<open>The flag and the open tools\<close>










lemma feedCodexLines_Cons:
  "feedCodexLines c num agentId ((line, uuid, ref) # rest) agent ctx =
     (fst (feedCodexLines c num agentId rest
             (fst (processCodexLine c num uuid ref agentId line agent ctx))
             (fst (snd (processCodexLine c num uuid ref agentId line agent ctx)))),
      fst (snd (feedCodexLines c num agentId rest
             (fst (processCodexLine c num uuid ref agentId line agent ctx))
             (fst (snd (processCodexLine c num uuid ref agentId line agent ctx))))),
      snd (snd (processCodexLine c num uuid ref agentId line agent ctx))
      @ snd (snd (feedCodexLines c num agentId rest
             (fst (processCodexLine c num uuid ref agentId line agent ctx))
             (fst (snd (processCodexLine c num uuid ref agentId line agent ctx))))))"
  by (simp split: prod.splits)

lemma feedCursorLines_Cons:
  "feedCursorLines c num basename agentId ((line, newId) # rest) agent ctx =
     (fst (feedCursorLines c num basename agentId rest
             (fst (processCursorLine c num basename newId agentId line agent ctx))
             (fst (snd (processCursorLine c num basename newId agentId line agent ctx)))),
      fst (snd (feedCursorLines c num basename agentId rest
             (fst (processCursorLine c num basename newId agentId line agent ctx))
             (fst (snd (processCursorLine c num basename newId agentId line agent ctx))))),
      snd (snd (processCursorLine c num basename newId agentId line agent ctx))
      @ snd (snd (feedCursorLines c num basename agentId rest
             (fst (processCursorLine c num basename newId agentId line agent ctx))
             (fst (snd (processCursorLine c num basename newId agentId line agent ctx))))))"
  by (simp split: prod.splits)

lemma feedCodexLines_step:
  assumes "processCodexLine c num uuid ref agentId line agent ctx = (agent1, ctx1, effects1)"
  shows "feedCodexLines c num agentId ((line, uuid, ref) # rest) agent ctx =
     (fst (feedCodexLines c num agentId rest agent1 ctx1),
      fst (snd (feedCodexLines c num agentId rest agent1 ctx1)),
      effects1 @ snd (snd (feedCodexLines c num agentId rest agent1 ctx1)))"
  using assms by (simp split: prod.splits)

lemma feedCursorLines_step:
  assumes "processCursorLine c num basename newId agentId line agent ctx = (agent1, ctx1, effects1)"
  shows "feedCursorLines c num basename agentId ((line, newId) # rest) agent ctx =
     (fst (feedCursorLines c num basename agentId rest agent1 ctx1),
      fst (snd (feedCursorLines c num basename agentId rest agent1 ctx1)),
      effects1 @ snd (snd (feedCursorLines c num basename agentId rest agent1 ctx1)))"
  using assms by (simp split: prod.splits)



lemma feedCodexLines_keyset:
  "keyset_consistent agent \<Longrightarrow>
   keyset_consistent (fst (feedCodexLines c num agentId lines agent ctx))"
proof (induction lines arbitrary: agent ctx)
  case Nil
  then show ?case by simp
next
  case (Cons l lines)
  obtain line u r where l: "l = (line, u, r)" by (cases l)
  from Cons.IH [OF processCodexLine_keyset [OF Cons.prems]]
  show ?case unfolding l by (simp only: feedCodexLines_Cons fst_conv)
qed

lemma feedCursorLines_keyset:
  "keyset_consistent agent \<Longrightarrow>
   keyset_consistent (fst (feedCursorLines c num basename agentId lines agent ctx))"
proof (induction lines arbitrary: agent ctx)
  case Nil
  then show ?case by simp
next
  case (Cons l lines)
  obtain line u where l: "l = (line, u)" by (cases l)
  from Cons.IH [OF processCursorLine_keyset [OF Cons.prems]]
  show ?case unfolding l by (simp only: feedCursorLines_Cons fst_conv)
qed

subsection \<open>Status texts\<close>

lemma command_status_string:
  assumes "field_or num record (js ''command'') (JString []) = JString s"
  shows "command_status c num record = Some (js ''Running: '' @ truncate_command c s)"
  using assms by (simp add: command_status_def command_display_def)




subsection \<open>Example lines\<close>

lemma skip_ws_simps:
  "skip_ws [] = []"
  "skip_ws (c # cs) = (if is_ws c then skip_ws cs else c # cs)"
  by (simp_all add: skip_ws_def)

lemma malformed_examples:
  \<open>malformed (js ''{"type":'')\<close>
  \<open>malformed (js ''null'')\<close>
  \<open>malformed (js ''{"working_dir":"/tmp"}'')\<close>
  by (simp_all add: malformed_def JSON_parse_def js_def skip_ws_simps is_ws_def
      parse_literal_def event_type_def)

lemmas parse_eval = JSON_parse_def js_def skip_ws_simps is_ws_def

lemma parse_TurnStarted:
  "JSON_parse line_TurnStarted = Some (JObject [(js ''type'', JString (js ''TurnStarted''))])"
  by (simp add: line_TurnStarted_def parse_eval)

lemma parse_ExecCommandBegin:
  "JSON_parse line_ExecCommandBegin =
     Some (JObject [(js ''type'', JString (js ''ExecCommandBegin'')),
                    (js ''id'', JString (js ''a1'')),
                    (js ''command'', JString (js ''ls -la''))])"
  by (simp add: line_ExecCommandBegin_def parse_eval)

lemma parse_ExecCommandEnd:
  "JSON_parse line_ExecCommandEnd =
     Some (JObject [(js ''type'', JString (js ''ExecCommandEnd'')),
                    (js ''id'', JString (js ''a1''))])"
  by (simp add: line_ExecCommandEnd_def parse_eval)

lemma parse_TurnEnded:
  "JSON_parse line_TurnEnded = Some (JObject [(js ''type'', JString (js ''TurnEnded''))])"
  by (simp add: line_TurnEnded_def parse_eval)

lemma parse_ApprovalRequest:
  "JSON_parse line_ApprovalRequest = Some (JObject [(js ''type'', JString (js ''ApprovalRequest''))])"
  by (simp add: line_ApprovalRequest_def parse_eval)

lemma parse_stop:
  "JSON_parse line_stop = Some (JObject [(js ''type'', JString (js ''stop''))])"
  by (simp add: line_stop_def parse_eval)

lemma parse_array_command:
  "JSON_parse line_array_command =
     Some (JObject [(js ''type'', JString (js ''ExecCommandBegin'')),
                    (js ''id'', JString (js ''a1'')),
                    (js ''command'', JArray [JString (js ''ls''), JString (js ''-la'')])])"
  by (simp add: line_array_command_def parse_eval)

lemma parse_object_command:
  "JSON_parse line_object_command =
     Some (JObject [(js ''type'', JString (js ''ExecCommandBegin'')),
                    (js ''id'', JString (js ''a1'')),
                    (js ''command'', JObject [(js ''toString'', JNull)])])"
  by (simp add: line_object_command_def parse_eval parse_literal_def)

lemma parse_array_path:
  "JSON_parse line_array_path =
     Some (JObject [(js ''type'', JString (js ''beforeReadFile'')),
                    (js ''file_path'', JArray [JString (js ''main.ts'')])])"
  by (simp add: line_array_path_def parse_eval)

lemma parse_beforeShellExecution:
  "JSON_parse line_beforeShellExecution =
     Some (JObject [(js ''type'', JString (js ''beforeShellExecution'')),
                    (js ''command'', JString (js ''ls''))])"
  by (simp add: line_beforeShellExecution_def parse_eval)

lemma parse_afterShellExecution:
  "JSON_parse line_afterShellExecution =
     Some (JObject [(js ''type'', JString (js ''afterShellExecution''))])"
  by (simp add: line_afterShellExecution_def parse_eval)

lemma parse_afterFileEdit:
  "JSON_parse line_afterFileEdit =
     Some (JObject [(js ''type'', JString (js ''afterFileEdit'')),
                    (js ''file_path'', JString (js ''/src/app/main.ts''))])"
  by (simp add: line_afterFileEdit_def parse_eval)

lemma line_event_examples:
  "line_event line_TurnStarted = Some (js ''TurnStarted'')"
  "line_event line_ExecCommandBegin = Some (js ''ExecCommandBegin'')"
  "line_event line_ExecCommandEnd = Some (js ''ExecCommandEnd'')"
  "line_event line_TurnEnded = Some (js ''TurnEnded'')"
  "line_event line_ApprovalRequest = Some (js ''ApprovalRequest'')"
  "line_event line_stop = Some (js ''stop'')"
  "line_event line_array_command = Some (js ''ExecCommandBegin'')"
  "line_event line_object_command = Some (js ''ExecCommandBegin'')"
  by (simp_all add: line_event_def event_type_def parse_TurnStarted parse_ExecCommandBegin
      parse_ExecCommandEnd parse_TurnEnded parse_ApprovalRequest parse_stop
      parse_array_command parse_object_command)

lemma line_event_cursor_examples:
  "line_event line_beforeShellExecution = Some (js ''beforeShellExecution'')"
  "line_event line_afterShellExecution = Some (js ''afterShellExecution'')"
  "line_event line_afterFileEdit = Some (js ''afterFileEdit'')"
  "line_event line_array_path = Some (js ''beforeReadFile'')"
  by (simp_all add: line_event_def event_type_def parse_beforeShellExecution
      parse_afterShellExecution parse_afterFileEdit parse_array_path)

lemma posix_basename_example: "posix_basename (js ''/src/app/main.ts'') = js ''main.ts''"
  by (simp add: posix_basename_def js_def)

lemma keyset_examples:
  "keyset_consistent agent0" "keyset_consistent agent_running"
  by (simp_all add: keyset_consistent_def agent0_def agent_running_def newAgent_def)

lemma webview_ctx0: "webview ctx0" by (simp add: ctx0_def)

lemma constants0_simps:
  "TOOL_DONE_DELAY_MS constants0 = 300"
  "BASH_COMMAND_DISPLAY_MAX_LENGTH constants0 = 30"
  "PERMISSION_TIMER_DELAY_MS constants0 = 7000"
  by (simp_all add: constants0_def)

lemma max_constants0: "6 \<le> BASH_COMMAND_DISPLAY_MAX_LENGTH constants0"
  by (simp add: constants0_def)

lemma max2_constants0: "2 \<le> BASH_COMMAND_DISPLAY_MAX_LENGTH constants0"
  by (simp add: constants0_def)

lemma flags_examples:
  "hadToolsInTurn agent_running" "hadToolsInTurn agent_cursor_one"
  "\<not> hadToolsInTurn agent0" "\<not> hadToolsInTurn agent_cursor0"
  "activeToolIds agent0 = []" "activeToolIds agent_cursor0 = []"
  by (simp_all add: agent_running_def agent_cursor_one_def agent0_def agent_cursor0_def
      newAgent_def)


lemma no_Read_examples:
  "js ''Read'' \<notin> snd ` set (activeToolNames agent_cursor_one)"
  "js ''Read'' \<notin> snd ` set (activeToolNames agent_cursor0)"
  by (simp_all add: agent_cursor_one_def agent_cursor0_def newAgent_def)

lemma afterFileEdit_record:
  "event_type (JObject [(js ''type'', JString (js ''afterFileEdit'')),
                    (js ''file_path'', JString (js ''/src/app/main.ts''))])
     = Some (js ''afterFileEdit'')"
  "field_or num (JObject [(js ''type'', JString (js ''afterFileEdit'')),
                    (js ''file_path'', JString (js ''/src/app/main.ts''))]) (js ''file_path'')
       (JString [])
     = JString (js ''/src/app/main.ts'')"
  by (simp_all add: event_type_def field_or_def truthy_def)


subsection \<open>The Codex parser on the example lines\<close>

lemma turnEnded_after:
  assumes "keyset_consistent agent" and "webview ctx"
  shows "after_turn_end agentId (turnEnded agentId agent ctx)"
proof (cases "activeToolIds agent = []")
  case True
  with assms(1) have "activeToolStatuses agent = []" "activeToolNames agent = []"
    by (simp_all add: keyset_consistent_def)
  with True assms(2) show ?thesis
    by (simp add: after_turn_end_def turnEnded_def postMessage_def)
next
  case False
  with assms(2) show ?thesis
    by (simp add: after_turn_end_def turnEnded_def postMessage_def)
qed

lemma codex_TurnStarted_line:
  assumes "webview ctx"
  shows "processCodexLine c num u r agentId line_TurnStarted agent ctx =
     (agent\<lparr>activeToolIds := [], activeToolStatuses := [], activeToolNames := [],
            activeSubagentToolIds := [], activeSubagentToolNames := [],
            hadToolsInTurn := False\<rparr>,
      ctx\<lparr>waitingTimers := (waitingTimers ctx)(agentId := None)\<rparr>,
      [PostMessage (AgentToolsClear agentId), PostMessage (AgentStatus agentId Active)])"
  using assms
  by (simp add: processCodexLine_def tryCodexLine_def parse_TurnStarted event_type_def
      codexEvent_TurnStarted turnStarted_def clearAgentActivity_def cancelWaitingTimer_def
      postMessage_def)

lemma codex_try_ExecCommandBegin:
  assumes "webview ctx" and "6 \<le> BASH_COMMAND_DISPLAY_MAX_LENGTH c"
  shows "tryCodexLine c num u r agentId line_ExecCommandBegin agent ctx =
     Some (agent\<lparr>activeToolIds := set_add (Str (js ''a1'')) (activeToolIds agent),
                 activeToolStatuses :=
                   AList.update (Str (js ''a1'')) (js ''Running: ls -la'')
                     (activeToolStatuses agent),
                 activeToolNames :=
                   AList.update (Str (js ''a1'')) (js ''shell'') (activeToolNames agent),
                 hadToolsInTurn := True, isWaiting := False\<rparr>,
           ctx\<lparr>permissionTimers :=
                 (permissionTimers ctx)(agentId \<mapsto> Timer (PERMISSION_TIMER_DELAY_MS c))\<rparr>,
           [PostMessage (AgentStatus agentId Active),
            PostMessage (AgentToolStart agentId (Str (js ''a1'')) (js ''Running: ls -la''))])"
proof -
  let ?r = "JObject [(js ''type'', JString (js ''ExecCommandBegin'')),
                    (js ''id'', JString (js ''a1'')),
                    (js ''command'', JString (js ''ls -la''))]"
  have id: "codexToolId num u r ?r = Str (js ''a1'')"
    by (simp add: codexToolId_def truthy_def value_of_def)
  have f: "field_or num ?r (js ''command'') (JString []) = JString (js ''ls -la'')"
    by (simp add: field_or_def truthy_def)
  have "truncate_command c (js ''ls -la'') = js ''ls -la''"
    using assms(2) by (simp add: truncate_command_def)
  then have st: "command_status c num ?r = Some (js ''Running: ls -la'')"
    by (simp add: command_status_string [OF f] js_append)
  show ?thesis
    using assms(1)
    by (simp add: tryCodexLine_def parse_ExecCommandBegin event_type_def
        codexEvent_ExecCommandBegin id st startPermissionTimer_def cancelPermissionTimer_def
        postMessage_def)
qed

lemma codex_ExecCommandBegin_line:
  assumes "webview ctx" and "6 \<le> BASH_COMMAND_DISPLAY_MAX_LENGTH c"
  shows "processCodexLine c num u r agentId line_ExecCommandBegin agent ctx =
     (agent\<lparr>activeToolIds := set_add (Str (js ''a1'')) (activeToolIds agent),
            activeToolStatuses :=
              AList.update (Str (js ''a1'')) (js ''Running: ls -la'') (activeToolStatuses agent),
            activeToolNames :=
              AList.update (Str (js ''a1'')) (js ''shell'') (activeToolNames agent),
            hadToolsInTurn := True, isWaiting := False\<rparr>,
      ctx\<lparr>permissionTimers :=
            (permissionTimers ctx)(agentId \<mapsto> Timer (PERMISSION_TIMER_DELAY_MS c))\<rparr>,
      [PostMessage (AgentStatus agentId Active),
       PostMessage (AgentToolStart agentId (Str (js ''a1'')) (js ''Running: ls -la''))])"
  by (rule processCodexLine_try(1) [OF codex_try_ExecCommandBegin [OF assms]])

lemma codex_try_array_command:
  assumes "webview ctx" and "2 \<le> BASH_COMMAND_DISPLAY_MAX_LENGTH c"
  shows "tryCodexLine c num u r agentId line_array_command agent ctx =
     Some (agent\<lparr>activeToolIds := set_add (Str (js ''a1'')) (activeToolIds agent),
                 activeToolStatuses :=
                   AList.update (Str (js ''a1'')) (js ''Running: ls,-la'')
                     (activeToolStatuses agent),
                 activeToolNames :=
                   AList.update (Str (js ''a1'')) (js ''shell'') (activeToolNames agent),
                 hadToolsInTurn := True, isWaiting := False\<rparr>,
           ctx\<lparr>permissionTimers :=
                 (permissionTimers ctx)(agentId \<mapsto> Timer (PERMISSION_TIMER_DELAY_MS c))\<rparr>,
           [PostMessage (AgentStatus agentId Active),
            PostMessage (AgentToolStart agentId (Str (js ''a1'')) (js ''Running: ls,-la''))])"
proof -
  let ?r = "JObject [(js ''type'', JString (js ''ExecCommandBegin'')),
                    (js ''id'', JString (js ''a1'')),
                    (js ''command'', JArray [JString (js ''ls''), JString (js ''-la'')])]"
  have id: "codexToolId num u r ?r = Str (js ''a1'')"
    by (simp add: codexToolId_def truthy_def value_of_def)
  have f: "field_or num ?r (js ''command'') (JString [])
      = JArray [JString (js ''ls''), JString (js ''-la'')]"
    by (simp add: field_or_def truthy_def)
  have j: "ToString num (JArray [JString (js ''ls''), JString (js ''-la'')]) = Some (js ''ls,-la'')"
    by (simp add: js_def)
  have st: "command_status c num ?r = Some (js ''Running: ls,-la'')"
    using assms(2) by (simp add: command_status_def f command_display_def j js_append del: ToString.simps)
  show ?thesis
    using assms(1)
    by (simp add: tryCodexLine_def parse_array_command event_type_def
        codexEvent_ExecCommandBegin id st startPermissionTimer_def cancelPermissionTimer_def
        postMessage_def)
qed


lemma codex_ExecCommandEnd_line:
  assumes "Str (js ''a1'') \<in> set (activeToolIds agent)"
  shows "processCodexLine c num u r agentId line_ExecCommandEnd agent ctx =
     (resetIfIdle (agent\<lparr>activeToolIds := removeAll (Str (js ''a1'')) (activeToolIds agent),
                 activeToolStatuses := AList.delete (Str (js ''a1'')) (activeToolStatuses agent),
                 activeToolNames := AList.delete (Str (js ''a1'')) (activeToolNames agent)\<rparr>),
      ctx,
      [SetTimeout (TOOL_DONE_DELAY_MS c) (AgentToolDone agentId (Str (js ''a1'')))])"
proof -
  let ?r = "JObject [(js ''type'', JString (js ''ExecCommandEnd'')), (js ''id'', JString (js ''a1''))]"
  have "field_in num r ?r (js ''id'') (activeToolIds agent) = Some (Str (js ''a1''))"
    using assms by (simp add: field_in_def truthy_def value_of_def)
  then show ?thesis
    by (simp add: processCodexLine_def tryCodexLine_def parse_ExecCommandEnd event_type_def
        codexEvent_ExecCommandEnd)
qed

lemma codex_TurnEnded_line:
  "processCodexLine c num u r agentId line_TurnEnded agent ctx = turnEnded agentId agent ctx"
  by (simp add: processCodexLine_def tryCodexLine_def parse_TurnEnded event_type_def
      codexEvent_TurnEnded)

lemma codex_scenario_effects:
  assumes "webview ctx" and "6 \<le> BASH_COMMAND_DISPLAY_MAX_LENGTH c"
  shows "snd (snd (feedCodexLines c num agentId codex_scenario agent ctx)) =
     [PostMessage (AgentToolsClear agentId),
      PostMessage (AgentStatus agentId Active),
      PostMessage (AgentStatus agentId Active),
      PostMessage (AgentToolStart agentId (Str (js ''a1'')) (js ''Running: ls -la'')),
      SetTimeout (TOOL_DONE_DELAY_MS c) (AgentToolDone agentId (Str (js ''a1''))),
      PostMessage (AgentStatus agentId Waiting)]"
proof -
  let ?a1 = "agent\<lparr>activeToolIds := [], activeToolStatuses := [], activeToolNames := [],
                 activeSubagentToolIds := [], activeSubagentToolNames := [],
                 hadToolsInTurn := False\<rparr>"
  let ?c1 = "ctx\<lparr>waitingTimers := (waitingTimers ctx)(agentId := None)\<rparr>"
  let ?a2 = "?a1\<lparr>activeToolIds := set_add (Str (js ''a1'')) (activeToolIds ?a1),
                 activeToolStatuses :=
                   AList.update (Str (js ''a1'')) (js ''Running: ls -la'') (activeToolStatuses ?a1),
                 activeToolNames :=
                   AList.update (Str (js ''a1'')) (js ''shell'') (activeToolNames ?a1),
                 hadToolsInTurn := True, isWaiting := False\<rparr>"
  let ?c2 = "?c1\<lparr>permissionTimers :=
                 (permissionTimers ?c1)(agentId \<mapsto> Timer (PERMISSION_TIMER_DELAY_MS c))\<rparr>"
  let ?a3 = "resetIfIdle (?a2\<lparr>activeToolIds := removeAll (Str (js ''a1'')) (activeToolIds ?a2),
                 activeToolStatuses := AList.delete (Str (js ''a1'')) (activeToolStatuses ?a2),
                 activeToolNames := AList.delete (Str (js ''a1'')) (activeToolNames ?a2)\<rparr>)"
  have w1: "webview ?c1" and w2: "webview ?c2" using assms(1) by simp_all
  have s1: "processCodexLine c num [] 0 agentId line_TurnStarted agent ctx =
      (?a1, ?c1, [PostMessage (AgentToolsClear agentId), PostMessage (AgentStatus agentId Active)])"
    by (rule codex_TurnStarted_line [OF assms(1)])
  have s2: "processCodexLine c num [] 1 agentId line_ExecCommandBegin ?a1 ?c1 =
      (?a2, ?c2, [PostMessage (AgentStatus agentId Active),
            PostMessage (AgentToolStart agentId (Str (js ''a1'')) (js ''Running: ls -la''))])"
    by (rule codex_ExecCommandBegin_line [OF w1 assms(2)])
  have "Str (js ''a1'') \<in> set (activeToolIds ?a2)" by (simp add: set_add_def)
  from codex_ExecCommandEnd_line [OF this]
  have s3: "processCodexLine c num [] 2 agentId line_ExecCommandEnd ?a2 ?c2 =
      (?a3, ?c2, [SetTimeout (TOOL_DONE_DELAY_MS c) (AgentToolDone agentId (Str (js ''a1'')))])" .
  have idle: "activeToolIds ?a3 = []" by (simp add: resetIfIdle_def set_add_def)
  have s4: "processCodexLine c num [] 3 agentId line_TurnEnded ?a3 ?c2 =
      (fst (turnEnded agentId ?a3 ?c2), fst (snd (turnEnded agentId ?a3 ?c2)),
       [PostMessage (AgentStatus agentId Waiting)])"
    using idle assms(1)
    by (simp add: codex_TurnEnded_line turnEnded_def postMessage_def Let_def)
  show ?thesis
    unfolding codex_scenario_def
    by (simp only: feedCodexLines_step [OF s1] feedCodexLines_step [OF s2]
        feedCodexLines_step [OF s3] feedCodexLines_step [OF s4]
        feedCodexLines.simps(1) snd_conv fst_conv append.simps)
qed




lemma codex_array_command_agent0:
  "processCodexLine constants0 num [] 1 1 line_array_command agent0 ctx0 =
     (agent0\<lparr>activeToolIds := [Str (js ''a1'')],
             activeToolStatuses := [(Str (js ''a1''), js ''Running: ls,-la'')],
             activeToolNames := [(Str (js ''a1''), js ''shell'')],
             hadToolsInTurn := True\<rparr>,
      ctx_armed 1,
      [PostMessage (AgentStatus 1 Active),
       PostMessage (AgentToolStart 1 (Str (js ''a1'')) (js ''Running: ls,-la''))])"
  using processCodexLine_try(1) [OF codex_try_array_command [OF webview_ctx0 max2_constants0,
      of num "[]" 1 1 agent0]]
  by (simp add: constants0_simps agent0_def newAgent_def set_add_def ctx0_def ctx_armed_def)

subsection \<open>The Cursor parser on the example lines\<close>

lemma matchTool_first:
  "k \<notin> snd ` set pre \<Longrightarrow> matchTool (pre @ (t, k) # post) k = Some t"
  by (induction pre) auto

lemma matchTool_None: "k \<notin> snd ` set names \<Longrightarrow> matchTool names k = None"
  by (induction names) auto

lemma delete_middle:
  "distinct (map fst (pre @ (t, k) # post)) \<Longrightarrow> AList.delete t (pre @ (t, k) # post) = pre @ post"
  by (induction pre) (auto simp: delete_id)

lemma cursor_tool_end_core:
  assumes "line_event line = Some event"
    and "event = js ''afterShellExecution'' \<or> event = js ''afterFileEdit''
         \<or> event = js ''afterMCPExecution''"
    and "activeToolNames agent = pre @ (doneId, cursorToolName event) # post"
    and "cursorToolName event \<notin> snd ` set pre"
    and "distinct (map fst (activeToolNames agent))"
    and "truthy_value doneId"
  shows "\<exists>agent'. processCursorLine c num basename newId agentId line agent ctx
            = (agent', ctx, [SetTimeout (TOOL_DONE_DELAY_MS c) (AgentToolDone agentId doneId)])
         \<and> activeToolIds agent' = removeAll doneId (activeToolIds agent)
         \<and> activeToolStatuses agent' = AList.delete doneId (activeToolStatuses agent)
         \<and> activeToolNames agent' = pre @ post
         \<and> doneId \<notin> set (activeToolIds agent')
         \<and> doneId \<notin> fst ` set (activeToolStatuses agent')
         \<and> doneId \<notin> fst ` set (activeToolNames agent')"
proof -
  let ?a = "agent\<lparr>activeToolIds := removeAll doneId (activeToolIds agent),
                    activeToolStatuses := AList.delete doneId (activeToolStatuses agent),
                    activeToolNames := AList.delete doneId (activeToolNames agent)\<rparr>"
  have m: "matchTool (activeToolNames agent) (cursorToolName event) = Some doneId"
    using assms(3,4) by (simp add: matchTool_first)
  from line_event_cursor [OF assms(1), of c num basename newId agentId agent ctx]
  have "tryCursorLine c num basename newId agentId line agent ctx
      = Some (resetIfIdle ?a, ctx,
              [SetTimeout (TOOL_DONE_DELAY_MS c) (AgentToolDone agentId doneId)])"
    by (auto simp: cursorEvent_tool_done_matched [OF assms(2) m assms(6)])
  then have run: "processCursorLine c num basename newId agentId line agent ctx
      = (resetIfIdle ?a, ctx, [SetTimeout (TOOL_DONE_DELAY_MS c) (AgentToolDone agentId doneId)])"
    by (rule processCursorLine_try(1))
  have names: "AList.delete doneId (activeToolNames agent) = pre @ post"
    using assms(5) unfolding assms(3) by (rule delete_middle)
  have fields: "activeToolIds (resetIfIdle ?a) = removeAll doneId (activeToolIds agent)"
    "activeToolStatuses (resetIfIdle ?a) = AList.delete doneId (activeToolStatuses agent)"
    "activeToolNames (resetIfIdle ?a) = AList.delete doneId (activeToolNames agent)"
    by (simp_all add: resetIfIdle_def)
  have gone: "doneId \<notin> fst ` set (AList.delete doneId (activeToolStatuses agent))"
    "doneId \<notin> fst ` set (AList.delete doneId (activeToolNames agent))"
    by (simp_all add: keys_delete)
  show ?thesis
    using run fields gone names by (intro exI [of _ "resetIfIdle ?a"]) simp
qed

lemma cursor_standalone_edit_core:
  assumes "JSON_parse line = Some record"
    and "event_type record = Some (js ''afterFileEdit'')"
    and "field_or num record (js ''file_path'') (JString []) = JString file_path"
    and "js ''Read'' \<notin> snd ` set (activeToolNames agent)"
    and "webview ctx"
  shows "processCursorLine c num basename newId agentId line agent ctx
         = (agent\<lparr>hadToolsInTurn := (activeToolIds agent \<noteq> [])\<rparr>, ctx,
            [PostMessage (AgentToolStart agentId (Str newId) (js ''Editing '' @ basename file_path)),
             SetTimeout (TOOL_DONE_DELAY_MS c) (AgentToolDone agentId (Str newId))])"
proof -
  have nn: "record \<noteq> JNull" using assms(2) by (auto simp: event_type_def)
  have st: "formatCursorStatus c num basename (js ''afterFileEdit'') record
      = Some (js ''Editing '' @ basename file_path)"
    by (simp add: formatCursorStatus_def assms(3) path_basename_def)
  have "matchTool (activeToolNames agent) (js ''Read'') = None"
    using assms(4) by (rule matchTool_None)
  then have ev: "cursorEvent c num basename newId agentId (js ''afterFileEdit'') record agent ctx
      = Some (resetIfIdle (agent\<lparr>hadToolsInTurn := True\<rparr>), ctx,
                postMessage (webview ctx)
                  (AgentToolStart agentId (Str newId) (js ''Editing '' @ basename file_path))
                @ [SetTimeout (TOOL_DONE_DELAY_MS c) (AgentToolDone agentId (Str newId))])"
    by (simp add: cursorEvent_synthetic_edit st)
  have "resetIfIdle (agent\<lparr>hadToolsInTurn := True\<rparr>) = agent\<lparr>hadToolsInTurn := (activeToolIds agent \<noteq> [])\<rparr>"
    by (simp add: resetIfIdle_def)
  with ev assms(1,2,5) nn show ?thesis
    by (cases "record") (simp_all add: processCursorLine_def tryCursorLine_def postMessage_def)
qed








subsection \<open>Tool starts and tool ends\<close>







subsection \<open>The agent manager\<close>

lemma removeAgent_registered:
  assumes "agents view agentId = Some agent"
  shows "absent agentId (fst (removeAgent agentId view))"
    and "snd (removeAgent agentId view) = stops agentId view @ [PersistAgents]"
  using assms
  by (simp_all add: removeAgent_def absent_def stops_def cancelled_def
      cancelWaitingTimer_def cancelPermissionTimer_def)

lemma removeAgent_unregistered:
  assumes "agents view agentId = None"
  shows "removeAgent agentId view = (view, [])"
  using assms by (simp add: removeAgent_def)

lemma owned_absent:
  assumes "timers_owned view" and "agents view agentId = None"
  shows "absent agentId view"
  using assms by (auto simp: timers_owned_def absent_def)

lemma removeAgent_core:
  assumes "timers_owned view"
  shows "absent agentId (fst (removeAgent agentId view))
       \<and> (agentId \<in> dom (agents view) \<longrightarrow>
            snd (removeAgent agentId view) = stops agentId view @ [PersistAgents])
       \<and> removeAgent agentId (fst (removeAgent agentId view)) = (fst (removeAgent agentId view), [])"
proof (cases "agents view agentId")
  case None
  then show ?thesis
    using owned_absent [OF assms None] by (auto simp: removeAgent_unregistered)
next
  case (Some agent)
  have a: "absent agentId (fst (removeAgent agentId view))"
    by (rule removeAgent_registered(1) [OF Some])
  then have "agents (fst (removeAgent agentId view)) agentId = None"
    by (simp add: absent_def)
  then have "removeAgent agentId (fst (removeAgent agentId view)) = (fst (removeAgent agentId view), [])"
    by (rule removeAgent_unregistered)
  with a removeAgent_registered(2) [OF Some] show ?thesis by simp
qed

lemma view_tailing_owned: "timers_owned view_tailing"
  by (simp add: timers_owned_def view_tailing_def view0_def)

lemma restoreOne_sets:
  assumes "restorable liveTerminals p"
  shows "restored_as files (persisted_id p)
           (agents (view_of (restoreOne c liveTerminals files p loop)) (persisted_id p))"
  using assms
  by (auto simp: restorable_def restoreOne_def Let_def restored_as_def transient_empty_def
      fast_forwarded_def newAgent_def startFileWatching_def split: option.splits)

lemma restoreOne_keeps:
  assumes "restored_as files i (agents (view_of loop) i)"
  shows "restored_as files i (agents (view_of (restoreOne c liveTerminals files p loop)) i)"
proof (cases "persisted_id p = i")
  case False
  then have "agents (view_of (restoreOne c liveTerminals files p loop)) i = agents (view_of loop) i"
    by (auto simp: restoreOne_def Let_def startFileWatching_def split: option.splits)
  with assms show ?thesis by simp
next
  case True
  show ?thesis
  proof (cases "restorable liveTerminals p")
    case True
    from restoreOne_sets [OF this, of files c loop] \<open>persisted_id p = i\<close> show ?thesis by simp
  next
    case False
    then have "restoreOne c liveTerminals files p loop = loop"
      by (auto simp: restorable_def restoreOne_def Let_def)
    with assms show ?thesis by simp
  qed
qed

lemma restoreLoop_keeps:
  "restored_as files i (agents (view_of loop) i) \<Longrightarrow>
   restored_as files i (agents (view_of (restoreLoop c liveTerminals files ps loop)) i)"
  by (induction ps arbitrary: loop) (simp_all add: restoreOne_keeps)

lemma restoreLoop_sets:
  "p \<in> set ps \<Longrightarrow> restorable liveTerminals p \<Longrightarrow>
   restored_as files (persisted_id p)
     (agents (view_of (restoreLoop c liveTerminals files ps loop)) (persisted_id p))"
proof (induction ps arbitrary: loop)
  case Nil
  then show ?case by simp
next
  case (Cons q ps)
  show ?case
  proof (cases "p \<in> set ps")
    case True
    from Cons.IH [OF True Cons.prems(2)] show ?thesis by simp
  next
    case False
    with Cons.prems(1) have "q = p" by simp
    with restoreOne_sets [OF Cons.prems(2), of files c loop] show ?thesis
      by (simp add: restoreLoop_keeps)
  qed
qed

lemma restoreAgents_agents:
  "persisted \<noteq> [] \<Longrightarrow>
   agents (fst (restoreAgents c liveTerminals files persisted view)) =
   agents (view_of (restoreLoop c liveTerminals files persisted
      \<lparr>view_of = view, maxId = 0, maxIdx = 0, restoredProjectDir = None\<rparr>))"
  by (simp add: restoreAgents_def Let_def)

lemma restoreAgents_core:
  assumes "p \<in> set persisted" and "restorable liveTerminals p"
  shows "restored_as files (persisted_id p)
           (agents (fst (restoreAgents c liveTerminals files persisted view)) (persisted_id p))"
proof -
  from assms(1) have "persisted \<noteq> []" by auto
  from restoreAgents_agents [OF this] restoreLoop_sets [OF assms]
  show ?thesis by simp
qed

lemma restorable_examples:
  "restorable terminals0 snapshot_codex" "restorable terminals0 snapshot_cursor"
  by (simp_all add: restorable_def terminals0_def snapshot_codex_def snapshot_cursor_def
      needsTerminal_def)

lemma restore_example:
  "map_option fileOffset
     (agents (fst (restoreAgents constants0 terminals0 files0
        [snapshot_codex, snapshot_cursor] view0)) 4) = Some 4096"
  "map_option fileOffset
     (agents (fst (restoreAgents constants0 terminals0 files0
        [snapshot_codex, snapshot_cursor] view0)) 5) = Some 0"
  by (simp_all add: restoreAgents_def restoreOne_def Let_def terminals0_def files0_def
      snapshot_codex_def snapshot_cursor_def needsTerminal_def view0_def newAgent_def
      startFileWatching_def)

subsection \<open>What the JSON parser consumes, and further examples\<close>

lemma parse_chars_consumes:
  "parse_chars acc s = Some (str, rest) \<Longrightarrow> length rest < length s"
proof (induction s arbitrary: acc rule: length_induct)
  case (1 s)
  show ?case
  proof (cases s)
    case Nil
    with 1(2) show ?thesis by simp
  next
    case (Cons c cs)
    have "rest = cs \<or> (\<exists>acc' t. length t \<le> length cs \<and> parse_chars acc' t = Some (str, rest))"
      using 1(2) Cons by (fastforce split: if_splits list.splits option.splits)
    then show ?thesis
    proof
      assume "rest = cs"
      with Cons show ?thesis by simp
    next
      assume "\<exists>acc' t. length t \<le> length cs \<and> parse_chars acc' t = Some (str, rest)"
      then obtain acc' t where t: "length t \<le> length cs" "parse_chars acc' t = Some (str, rest)"
        by blast
      from t(1) Cons have "length t < length s" by simp
      with 1(1) t(2) have "length rest < length t" by blast
      with \<open>length t < length s\<close> show ?thesis by simp
    qed
  qed
qed

lemma parse_digits_consumes:
  "parse_digits s = Some (ds, rest) \<Longrightarrow> length rest < length s"
proof -
  assume a: "parse_digits s = Some (ds, rest)"
  then have ne: "takeWhile is_digit s \<noteq> []" and r: "rest = dropWhile is_digit s"
    by (auto simp: parse_digits_def Let_def split: if_splits)
  have "length (takeWhile is_digit s) + length (dropWhile is_digit s) = length s"
    by (metis length_append takeWhile_dropWhile_id)
  with ne r show ?thesis by (cases "takeWhile is_digit s") auto
qed

lemma parse_number_consumes:
  "parse_number s = Some (num, rest) \<Longrightarrow> length rest < length s"
proof -
  assume a: "parse_number s = Some (num, rest)"
  obtain sign s1 where s: "parse_sign s = (sign, s1)" by (cases "parse_sign s")
  then have l1: "length s1 \<le> length s"
    by (auto simp: parse_sign_def split: list.splits if_splits)
  from a s obtain ip s2 fp s3 ep where
    i: "parse_int_part s1 = Some (ip, s2)" and f: "parse_frac_part s2 = Some (fp, s3)"
    and e: "parse_exp_part s3 = Some (ep, rest)"
    by (auto simp: parse_number_def split: option.splits)
  from i have l2: "length s2 < length s1"
    by (auto simp: parse_int_part_def split: list.splits if_splits dest: parse_digits_consumes)
  from f have l3: "length s3 \<le> length s2"
    by (auto simp: parse_frac_part_def split: list.splits if_splits option.splits
        dest!: parse_digits_consumes)
  from e have l4: "length rest \<le> length s3"
    by (auto simp: parse_exp_part_def split: list.splits if_splits option.splits
        dest!: parse_digits_consumes)
  from l1 l2 l3 l4 show ?thesis by simp
qed

lemma parse_literal_consumes:
  "w \<noteq> [] \<Longrightarrow> parse_literal w v s = Some (x, rest) \<Longrightarrow> length rest < length s"
proof -
  assume w: "w \<noteq> []" and a: "parse_literal w v s = Some (x, rest)"
  then have t: "take (length w) s = w" and r: "rest = drop (length w) s"
    by (auto simp: parse_literal_def split: if_splits)
  from t have "length (take (length w) s) = length w" by simp
  then have "length w \<le> length s" by simp
  with w r show ?thesis by (cases w) auto
qed

lemma skip_ws_Cons_le: "skip_ws s = c # cs \<Longrightarrow> Suc (length cs) \<le> length s"
  using length_skip_ws [of s] by simp

lemma js_nonempty: "js ''true'' \<noteq> []" "js ''false'' \<noteq> []" "js ''null'' \<noteq> []"
  by simp_all

lemma parse_consumes:
  "parse_value s = Some (v, rest) \<Longrightarrow> length rest < length s"
  "parse_elements acc s = Some (v, rest) \<Longrightarrow> length rest < length s"
  "parse_members macc s = Some (v, rest) \<Longrightarrow> length rest < length s"
proof (induction s and acc s and macc s arbitrary: v rest and v rest and v rest
    rule: parse_value_parse_elements_parse_members.induct)
  case (1 s)
  from "1.prems" obtain c cs where s: "skip_ws s = c # cs"
    by (subst (asm) parse_value.simps) (auto split: list.splits)
  note le = skip_ws_Cons_le [OF s]
  consider (obj) "c = 0x7B" | (arr) "c \<noteq> 0x7B" "c = 0x5B" | (str) "c \<noteq> 0x7B" "c \<noteq> 0x5B" "c = 0x22"
    | (lit) "c \<noteq> 0x7B" "c \<noteq> 0x5B" "c \<noteq> 0x22" "c = 0x74 \<or> c = 0x66 \<or> c = 0x6E"
    | (num) "c \<noteq> 0x7B" "c \<noteq> 0x5B" "c \<noteq> 0x22" "c \<noteq> 0x74" "c \<noteq> 0x66" "c \<noteq> 0x6E"
    by blast
  then show ?case
  proof cases
    case obj
    from "1.prems" s obj obtain d ds where d: "skip_ws cs = d # ds"
      by (subst (asm) parse_value.simps) (auto split: list.splits)
    note le2 = skip_ws_Cons_le [OF d]
    show ?thesis
    proof (cases "d = 0x7D")
      case True
      with "1.prems" s obj d have "rest = ds"
        by (subst (asm) parse_value.simps) simp
      with le le2 show ?thesis by simp
    next
      case False
      with "1.prems" s obj d have "parse_members [] (d # ds) = Some (v, rest)"
        by (subst (asm) parse_value.simps) simp
      from "1.IH"(1) [OF s obj d False this] le le2 show ?thesis by simp
    qed
  next
    case arr
    from "1.prems" s arr obtain d ds where d: "skip_ws cs = d # ds"
      by (subst (asm) parse_value.simps) (auto split: list.splits)
    note le2 = skip_ws_Cons_le [OF d]
    show ?thesis
    proof (cases "d = 0x5D")
      case True
      with "1.prems" s arr d have "rest = ds"
        by (subst (asm) parse_value.simps) simp
      with le le2 show ?thesis by simp
    next
      case False
      with "1.prems" s arr d have "parse_elements [] (d # ds) = Some (v, rest)"
        by (subst (asm) parse_value.simps) simp
      from "1.IH"(2) [OF s arr d False this] le le2 show ?thesis by simp
    qed
  next
    case str
    with "1.prems" s obtain x where "parse_chars [] cs = Some (x, rest)"
      by (subst (asm) parse_value.simps) (auto split: option.splits)
    from parse_chars_consumes [OF this] le show ?thesis by simp
  next
    case lit
    with "1.prems" s have
      "parse_literal (js ''true'') (JBool True) (c # cs) = Some (v, rest)
       \<or> parse_literal (js ''false'') (JBool False) (c # cs) = Some (v, rest)
       \<or> parse_literal (js ''null'') JNull (c # cs) = Some (v, rest)"
      by (subst (asm) parse_value.simps) (auto split: if_splits)
    then have "length rest < length (c # cs)"
      using parse_literal_consumes [OF js_nonempty(1)] parse_literal_consumes [OF js_nonempty(2)]
        parse_literal_consumes [OF js_nonempty(3)] by blast
    with le show ?thesis by simp
  next
    case num
    with "1.prems" s obtain x where "parse_number (c # cs) = Some (x, rest)"
      by (subst (asm) parse_value.simps) (auto split: option.splits)
    from parse_number_consumes [OF this] le show ?thesis by simp
  qed
next
  case (2 acc s)
  from "2.prems" obtain x r where pv: "parse_value s = Some (x, r)" and lt: "length r < length s"
    by (subst (asm) parse_elements.simps) (auto split: option.splits if_splits)
  from "2.prems" pv lt obtain c cs where sk: "skip_ws r = c # cs"
    by (subst (asm) parse_elements.simps) (auto split: list.splits)
  note le = skip_ws_Cons_le [OF sk]
  show ?case
  proof (cases "c = 0x2C")
    case True
    with "2.prems" pv lt sk have "parse_elements (x # acc) cs = Some (v, rest)"
      by (subst (asm) parse_elements.simps) simp
    from "2.IH"(2) [OF pv refl lt sk True this] le lt show ?thesis by simp
  next
    case False
    with "2.prems" pv lt sk have "rest = cs"
      by (subst (asm) parse_elements.simps) (auto split: if_splits)
    with le lt show ?thesis by simp
  qed
next
  case (3 macc s)
  from "3.prems" obtain q cs where s: "skip_ws s = q # cs" and q: "q = 0x22"
    by (subst (asm) parse_members.simps) (auto split: list.splits if_splits)
  from "3.prems" s q obtain key r where k: "parse_chars [] cs = Some (key, r)"
    by (subst (asm) parse_members.simps) (auto split: option.splits)
  from "3.prems" s q k obtain colon vs where sk: "skip_ws r = colon # vs"
    by (subst (asm) parse_members.simps) (auto split: list.splits)
  from "3.prems" s q k sk have co: "colon = 0x3A \<and> length vs < length s"
    by (subst (asm) parse_members.simps) (auto split: if_splits)
  from "3.prems" s q k sk co obtain x r' where pv: "parse_value vs = Some (x, r')"
    by (subst (asm) parse_members.simps) (auto split: option.splits)
  from "3.prems" s q k sk co pv have lt: "length r' < length vs"
    by (subst (asm) parse_members.simps) (auto split: if_splits)
  from "3.prems" s q k sk co pv lt obtain c cs' where sk': "skip_ws r' = c # cs'"
    by (subst (asm) parse_members.simps) (auto split: list.splits)
  note le = skip_ws_Cons_le [OF sk']
  show ?case
  proof (cases "c = 0x2C")
    case True
    with "3.prems" s q k sk co pv lt sk' have "parse_members ((key, x) # macc) cs' = Some (v, rest)"
      by (subst (asm) parse_members.simps) simp
    from "3.IH"(2) [OF s q k refl sk co pv refl lt sk' True this] le lt co show ?thesis by simp
  next
    case False
    with "3.prems" s q k sk co pv lt sk' have "rest = cs'"
      by (subst (asm) parse_members.simps) (auto split: if_splits)
    with le lt co show ?thesis by simp
  qed
qed

lemmas parse_value_consumes = parse_consumes(1)

lemma JSON_parse_examples:
  \<open>JSON_parse (js '' [1, -2.5e+3, true, null, {"a": []}] '')
     = Some (JArray [JNumber (js ''1''), JNumber (js ''-2.5e+3''), JBool True, JNull,
                     JObject [(js ''a'', JArray [])]])\<close>
  \<open>JSON_parse (js ''"a'' @ [0x5C, 0x6E, 0x5C, 0x75] @ js ''2026"'')
     = Some (JString [0x61, 0x0A, 0x2026])\<close>
  \<open>JSON_parse (js ''{"a":1,"a":2}'') = Some (JObject [(js ''a'', JNumber (js ''1'')), (js ''a'', JNumber (js ''2''))])\<close>
  \<open>JSON_parse (js ''[01]'') = None\<close>
  \<open>JSON_parse (js ''[1,]'') = None\<close>
  \<open>JSON_parse (js ''{"a":1,}'') = None\<close>
  \<open>JSON_parse (js ''"a'') = None\<close>
  \<open>JSON_parse (js ''1.'') = None\<close>
  \<open>JSON_parse (js ''nul'') = None\<close>
  \<open>JSON_parse (js ''{} x'') = None\<close>
  \<open>JSON_parse (js '''') = None\<close>
  by (simp_all add: parse_eval parse_literal_def parse_number_def parse_sign_def
      parse_int_part_def parse_frac_part_def parse_exp_part_def parse_digits_def is_digit_def
      hex4_def hex_digit_def unescape_def)

lemma get_prop_last_wins:
  "get_prop (JObject [(js ''a'', JNumber (js ''1'')), (js ''a'', JNumber (js ''2''))]) (js ''a'')
     = Some (JNumber (js ''2''))"
  by simp

lemma terminal_index_examples:
  "terminal_index (js ''Codex #3'') = Some 3"
  "terminal_index (js ''Claude Code #12'') = Some 12"
  "terminal_index (js ''cursor'') = None"
  "terminal_index (js ''a#1b'') = None"
  "terminal_index (js ''#'') = None"
  by (simp_all add: terminal_index_def decimal_def js_def is_digit_def)

lemma posix_basename_examples:
  "posix_basename (js ''/a/b/'') = js ''b''"
  "posix_basename (js ''main.ts'') = js ''main.ts''"
  "posix_basename (js ''/'') = []"
  "posix_basename [] = []"
  by (simp_all add: posix_basename_def js_def)

section \<open>Properties: the claims\<close>

text \<open>
  C1, as amended. Fed to the Codex parser one at a time, with a webview attached and a
  display limit of at least the six characters of the command, the four lines
  \<open>TurnStarted\<close>, \<open>ExecCommandBegin\<close> (id a1, command "ls -la"), \<open>ExecCommandEnd\<close>
  (id a1), \<open>TurnEnded\<close> produce, from any agent state, exactly: \<open>agentToolsClear\<close> and
  \<open>agentStatus\<close> active (turn start), \<open>agentStatus\<close> active and
  \<open>agentToolStart\<close> (a1, "Running: ls -la") (tool start), \<open>agentToolDone\<close> (a1)
  scheduled after \<open>TOOL_DONE_DELAY_MS\<close> (tool end), \<open>agentStatus\<close> waiting (turn end,
  which posts no \<open>agentToolsClear\<close> because no tool is open any more). The
  counterexample shows that this differs from the sequence of the claim.
\<close>

theorem codex_scenario_events:
  assumes "webview ctx" and "6 \<le> BASH_COMMAND_DISPLAY_MAX_LENGTH c"
  shows "snd (snd (feedCodexLines c num agentId codex_scenario agent ctx)) =
     [PostMessage (AgentToolsClear agentId),
      PostMessage (AgentStatus agentId Active),
      PostMessage (AgentStatus agentId Active),
      PostMessage (AgentToolStart agentId (Str (js ''a1'')) (js ''Running: ls -la'')),
      SetTimeout (TOOL_DONE_DELAY_MS c) (AgentToolDone agentId (Str (js ''a1''))),
      PostMessage (AgentStatus agentId Waiting)]"
  using assms by (rule codex_scenario_effects)

theorem codex_scenario_events_witness:
  "\<forall>num. webview ctx0 \<and> 6 \<le> BASH_COMMAND_DISPLAY_MAX_LENGTH constants0 \<and>
     snd (snd (feedCodexLines constants0 num 1 codex_scenario agent0 ctx0)) =
       [PostMessage (AgentToolsClear 1),
        PostMessage (AgentStatus 1 Active),
        PostMessage (AgentStatus 1 Active),
        PostMessage (AgentToolStart 1 (Str (js ''a1'')) (js ''Running: ls -la'')),
        SetTimeout 300 (AgentToolDone 1 (Str (js ''a1''))),
        PostMessage (AgentStatus 1 Waiting)]"
proof
  fix num
  show "webview ctx0 \<and> 6 \<le> BASH_COMMAND_DISPLAY_MAX_LENGTH constants0 \<and>
     snd (snd (feedCodexLines constants0 num 1 codex_scenario agent0 ctx0)) =
       [PostMessage (AgentToolsClear 1),
        PostMessage (AgentStatus 1 Active),
        PostMessage (AgentStatus 1 Active),
        PostMessage (AgentToolStart 1 (Str (js ''a1'')) (js ''Running: ls -la'')),
        SetTimeout 300 (AgentToolDone 1 (Str (js ''a1''))),
        PostMessage (AgentStatus 1 Waiting)]"
    using codex_scenario_events [OF webview_ctx0 max_constants0, of num 1 agent0]
      webview_ctx0 max_constants0
    by (simp add: constants0_simps)
qed

theorem codex_scenario_counterexample:
  "\<forall>num. snd (snd (feedCodexLines constants0 num 1 codex_scenario agent0 ctx0)) \<noteq>
     [PostMessage (AgentStatus 1 Active),
      PostMessage (AgentToolStart 1 (Str (js ''a1'')) (js ''Running: ls -la'')),
      SetTimeout 300 (AgentToolDone 1 (Str (js ''a1''))),
      PostMessage (AgentToolsClear 1),
      PostMessage (AgentStatus 1 Waiting)]"
proof
  fix num
  show "snd (snd (feedCodexLines constants0 num 1 codex_scenario agent0 ctx0)) \<noteq>
     [PostMessage (AgentStatus 1 Active),
      PostMessage (AgentToolStart 1 (Str (js ''a1'')) (js ''Running: ls -la'')),
      SetTimeout 300 (AgentToolDone 1 (Str (js ''a1''))),
      PostMessage (AgentToolsClear 1),
      PostMessage (AgentStatus 1 Waiting)]"
    using codex_scenario_effects [OF webview_ctx0 max_constants0, of num 1 agent0]
    by (simp add: constants0_simps)
qed

text \<open>
  C2. Turn end. For an agent that satisfies the keyset invariant and a context with a
  webview, a Codex line of type \<open>TurnEnded\<close> and a Cursor line of type
  \<open>afterAgentResponse\<close> or \<open>stop\<close> leave \<open>activeToolIds\<close>, \<open>activeToolStatuses\<close> and
  \<open>activeToolNames\<close> empty, \<open>isWaiting\<close> true, \<open>permissionSent\<close> and \<open>hadToolsInTurn\<close>
  false, and post \<open>agentStatus\<close> with status \<open>waiting\<close>.
\<close>

theorem turn_end_clears_tracking:
  assumes "keyset_consistent agent" and "webview ctx"
  shows "(line_event line = Some (js ''TurnEnded'') \<longrightarrow>
            after_turn_end agentId (processCodexLine c num uuid ref agentId line agent ctx))
       \<and> (line_event line = Some (js ''afterAgentResponse'') \<or> line_event line = Some (js ''stop'') \<longrightarrow>
            after_turn_end agentId
              (processCursorLine c num basename newId agentId line agent ctx))"
proof (intro conjI impI)
  assume "line_event line = Some (js ''TurnEnded'')"
  from line_event_codex [OF this, of c num uuid ref agentId agent ctx]
  have "processCodexLine c num uuid ref agentId line agent ctx = turnEnded agentId agent ctx"
    by (auto simp: codexEvent_TurnEnded processCodexLine_def)
  then show "after_turn_end agentId (processCodexLine c num uuid ref agentId line agent ctx)"
    using turnEnded_after [OF assms] by simp
next
  assume "line_event line = Some (js ''afterAgentResponse'') \<or> line_event line = Some (js ''stop'')"
  then obtain event where e: "line_event line = Some event"
      "event = js ''afterAgentResponse'' \<or> event = js ''stop''" by blast
  from line_event_cursor [OF e(1), of c num basename newId agentId agent ctx]
  have "processCursorLine c num basename newId agentId line agent ctx
      = turnEnded agentId agent ctx"
    by (auto simp: cursorEvent_turn_end [OF e(2)] processCursorLine_def)
  then show "after_turn_end agentId
      (processCursorLine c num basename newId agentId line agent ctx)"
    using turnEnded_after [OF assms] by simp
qed

theorem turn_end_clears_tracking_witness:
  "\<forall>num. keyset_consistent agent_running \<and> webview ctx0
   \<and> line_event line_TurnEnded = Some (js ''TurnEnded'')
   \<and> line_event line_stop = Some (js ''stop'')
   \<and> after_turn_end 1 (processCodexLine constants0 num [] 0 1 line_TurnEnded agent_running ctx0)
   \<and> after_turn_end 1
       (processCursorLine constants0 num posix_basename [] 1 line_stop agent_running ctx0)"
proof
  fix num
  show "keyset_consistent agent_running \<and> webview ctx0
   \<and> line_event line_TurnEnded = Some (js ''TurnEnded'')
   \<and> line_event line_stop = Some (js ''stop'')
   \<and> after_turn_end 1 (processCodexLine constants0 num [] 0 1 line_TurnEnded agent_running ctx0)
   \<and> after_turn_end 1
       (processCursorLine constants0 num posix_basename [] 1 line_stop agent_running ctx0)"
    using turn_end_clears_tracking [OF keyset_examples(2) webview_ctx0,
        of line_TurnEnded 1 constants0 num "[]" 0 posix_basename "[]"]
      turn_end_clears_tracking [OF keyset_examples(2) webview_ctx0,
        of line_stop 1 constants0 num "[]" 0 posix_basename "[]"]
      keyset_examples(2) webview_ctx0 line_event_examples(4,6)
    by simp
qed

text \<open>
  C3. The keyset invariant is preserved by every line, whatever the line holds: if the
  keys of \<open>activeToolStatuses\<close> and of \<open>activeToolNames\<close> are the members of
  \<open>activeToolIds\<close> before \<open>processCodexLine\<close> or \<open>processCursorLine\<close> handles a line,
  they are so after it, and hence after any sequence of lines. The witness is a line
  whose command is an array: the parser joins it into the status and tracks the tool in
  all three collections.
\<close>

theorem keyset_consistency_preserved:
  assumes "keyset_consistent agent"
  shows "keyset_consistent (fst (processCodexLine c num uuid ref agentId line agent ctx))
       \<and> keyset_consistent (fst (processCursorLine c num basename newId agentId line agent ctx))
       \<and> keyset_consistent (fst (feedCodexLines c num agentId codexLines agent ctx))
       \<and> keyset_consistent (fst (feedCursorLines c num basename agentId cursorLines agent ctx))"
  using processCodexLine_keyset [OF assms] processCursorLine_keyset [OF assms]
    feedCodexLines_keyset [OF assms] feedCursorLines_keyset [OF assms]
  by (intro conjI)

theorem keyset_consistency_preserved_witness:
  "\<forall>num. keyset_consistent agent0 \<and>
   processCodexLine constants0 num [] 1 1 line_array_command agent0 ctx0 =
     (agent0\<lparr>activeToolIds := [Str (js ''a1'')],
             activeToolStatuses := [(Str (js ''a1''), js ''Running: ls,-la'')],
             activeToolNames := [(Str (js ''a1''), js ''shell'')],
             hadToolsInTurn := True\<rparr>,
      ctx_armed 1,
      [PostMessage (AgentStatus 1 Active),
       PostMessage (AgentToolStart 1 (Str (js ''a1'')) (js ''Running: ls,-la''))]) \<and>
   keyset_consistent
     (agent0\<lparr>activeToolIds := [Str (js ''a1'')],
             activeToolStatuses := [(Str (js ''a1''), js ''Running: ls,-la'')],
             activeToolNames := [(Str (js ''a1''), js ''shell'')],
             hadToolsInTurn := True\<rparr>)"
proof
  fix num
  note run = codex_array_command_agent0 [of num]
  from keyset_consistency_preserved [OF keyset_examples(1),
      of constants0 num "[]" 1 1 line_array_command ctx0]
  have "keyset_consistent
     (fst (processCodexLine constants0 num [] 1 1 line_array_command agent0 ctx0))"
    by blast
  then have "keyset_consistent
     (agent0\<lparr>activeToolIds := [Str (js ''a1'')],
             activeToolStatuses := [(Str (js ''a1''), js ''Running: ls,-la'')],
             activeToolNames := [(Str (js ''a1''), js ''shell'')],
             hadToolsInTurn := True\<rparr>)"
    unfolding run by simp
  with keyset_examples(1) run
  show "keyset_consistent agent0 \<and>
   processCodexLine constants0 num [] 1 1 line_array_command agent0 ctx0 =
     (agent0\<lparr>activeToolIds := [Str (js ''a1'')],
             activeToolStatuses := [(Str (js ''a1''), js ''Running: ls,-la'')],
             activeToolNames := [(Str (js ''a1''), js ''shell'')],
             hadToolsInTurn := True\<rparr>,
      ctx_armed 1,
      [PostMessage (AgentStatus 1 Active),
       PostMessage (AgentToolStart 1 (Str (js ''a1'')) (js ''Running: ls,-la''))]) \<and>
   keyset_consistent
     (agent0\<lparr>activeToolIds := [Str (js ''a1'')],
             activeToolStatuses := [(Str (js ''a1''), js ''Running: ls,-la'')],
             activeToolNames := [(Str (js ''a1''), js ''shell'')],
             hadToolsInTurn := True\<rparr>)"
    by (intro conjI)
qed

text \<open>
  C4. A line that is not valid JSON, or that fails the structural checks (it parses to
  \<open>null\<close>, or carries no usable \<open>type\<close>), makes \<open>processCodexLine\<close> and
  \<open>processCursorLine\<close> return normally with no effect at all: the agent and the context
  are unchanged and nothing is emitted. Processing therefore goes on with the next line
  as if the malformed one had not been there.
\<close>

theorem malformed_line_ignored:
  assumes "malformed line"
  shows "processCodexLine c num uuid ref agentId line agent ctx = (agent, ctx, [])
       \<and> processCursorLine c num basename newId agentId line agent ctx = (agent, ctx, [])
       \<and> feedCodexLines c num agentId ((line, uuid, ref) # rest) agent ctx
           = feedCodexLines c num agentId rest agent ctx
       \<and> feedCursorLines c num basename agentId ((line, newId) # rest') agent ctx
           = feedCursorLines c num basename agentId rest' agent ctx"
proof -
  have codex: "processCodexLine c num uuid ref agentId line agent ctx = (agent, ctx, [])"
    using assms
    by (auto simp: malformed_def processCodexLine_def tryCodexLine_def
        split: option.splits json.splits)
  have cursor: "processCursorLine c num basename newId agentId line agent ctx = (agent, ctx, [])"
    using assms
    by (auto simp: malformed_def processCursorLine_def tryCursorLine_def
        split: option.splits json.splits)
  have "feedCodexLines c num agentId ((line, uuid, ref) # rest) agent ctx
           = feedCodexLines c num agentId rest agent ctx"
    by (simp add: codex split: prod.splits)
  moreover have "feedCursorLines c num basename agentId ((line, newId) # rest') agent ctx
           = feedCursorLines c num basename agentId rest' agent ctx"
    by (simp add: cursor split: prod.splits)
  ultimately show ?thesis using codex cursor by simp
qed

theorem malformed_line_ignored_witness:
  \<open>\<forall>num. malformed (js ''{"type":'')
   \<and> processCodexLine constants0 num [] 0 1 (js ''{"type":'') agent0 ctx0 = (agent0, ctx0, [])
   \<and> processCursorLine constants0 num posix_basename [] 1 (js ''{"type":'') agent0 ctx0
       = (agent0, ctx0, [])\<close>
proof
  fix num
  show \<open>malformed (js ''{"type":'')
   \<and> processCodexLine constants0 num [] 0 1 (js ''{"type":'') agent0 ctx0 = (agent0, ctx0, [])
   \<and> processCursorLine constants0 num posix_basename [] 1 (js ''{"type":'') agent0 ctx0
       = (agent0, ctx0, [])\<close>
    using malformed_line_ignored [OF malformed_examples(1), of constants0 num "[]" 0 1 agent0 ctx0
        posix_basename "[]" "[]" "[]"]
      malformed_examples(1)
    by simp
qed

text \<open>
  C5. Cursor's tool-end lines carry no id. For an agent whose \<open>activeToolNames\<close> map
  (distinct keys, in insertion order) has an entry of the kind the line asks for (Bash
  for \<open>afterShellExecution\<close>, Read for \<open>afterFileEdit\<close>, MCP for \<open>afterMCPExecution\<close>),
  the first such entry, with a truthy id \<open>doneId\<close> (a non-empty string, as every id the
  parsers allocate), is the one the line closes: \<open>doneId\<close> leaves all three
  collections, every other entry stays, and the only effect is one \<open>agentToolDone\<close> for
  \<open>doneId\<close>, scheduled after \<open>TOOL_DONE_DELAY_MS\<close>.
\<close>

theorem cursor_tool_end_removes_oldest:
  assumes "line_event line = Some event"
    and "event = js ''afterShellExecution'' \<or> event = js ''afterFileEdit''
         \<or> event = js ''afterMCPExecution''"
    and "activeToolNames agent = pre @ (doneId, cursorToolName event) # post"
    and "cursorToolName event \<notin> snd ` set pre"
    and "distinct (map fst (activeToolNames agent))"
    and "truthy_value doneId"
  shows "\<exists>agent'. processCursorLine c num basename newId agentId line agent ctx
            = (agent', ctx, [SetTimeout (TOOL_DONE_DELAY_MS c) (AgentToolDone agentId doneId)])
         \<and> activeToolIds agent' = removeAll doneId (activeToolIds agent)
         \<and> activeToolStatuses agent' = AList.delete doneId (activeToolStatuses agent)
         \<and> activeToolNames agent' = pre @ post
         \<and> doneId \<notin> set (activeToolIds agent')
         \<and> doneId \<notin> fst ` set (activeToolStatuses agent')
         \<and> doneId \<notin> fst ` set (activeToolNames agent')"
  using assms by (rule cursor_tool_end_core)

theorem cursor_tool_end_removes_oldest_witness:
  "\<forall>num. line_event line_afterShellExecution = Some (js ''afterShellExecution'')
   \<and> activeToolNames agent_cursor
       = [(Str (js ''t0''), js ''MCP'')]
           @ (Str (js ''t1''), cursorToolName (js ''afterShellExecution''))
           # [(Str (js ''t2''), js ''Bash'')]
   \<and> cursorToolName (js ''afterShellExecution'') \<notin> snd ` set [(Str (js ''t0''), js ''MCP'')]
   \<and> distinct (map fst (activeToolNames agent_cursor))
   \<and> truthy_value (Str (js ''t1''))
   \<and> (\<exists>agent'. processCursorLine constants0 num posix_basename [] 2 line_afterShellExecution
                   agent_cursor ctx0
                 = (agent', ctx0, [SetTimeout 300 (AgentToolDone 2 (Str (js ''t1'')))])
         \<and> activeToolIds agent' = [Str (js ''t0''), Str (js ''t2'')]
         \<and> activeToolStatuses agent'
             = [(Str (js ''t0''), js ''MCP: search''), (Str (js ''t2''), js ''Running: make'')]
         \<and> activeToolNames agent' = [(Str (js ''t0''), js ''MCP''), (Str (js ''t2''), js ''Bash'')])"
proof
  fix num
  have e: "js ''afterShellExecution'' = js ''afterShellExecution''
      \<or> js ''afterShellExecution'' = js ''afterFileEdit''
      \<or> js ''afterShellExecution'' = js ''afterMCPExecution''" by simp
  have n: "activeToolNames agent_cursor
       = [(Str (js ''t0''), js ''MCP'')]
           @ (Str (js ''t1''), cursorToolName (js ''afterShellExecution''))
           # [(Str (js ''t2''), js ''Bash'')]"
    by (simp add: agent_cursor_def cursorToolName_def)
  have k: "cursorToolName (js ''afterShellExecution'') \<notin> snd ` set [(Str (js ''t0''), js ''MCP'')]"
    by (simp add: cursorToolName_def)
  have d: "distinct (map fst (activeToolNames agent_cursor))"
    by (simp add: agent_cursor_def)
  have i: "truthy_value (Str (js ''t1''))" by (simp add: truthy_value_def)
  from cursor_tool_end_removes_oldest [OF line_event_cursor_examples(2) e n k d i,
      of constants0 num posix_basename "[]" 2 ctx0]
  obtain a where
    r: "processCursorLine constants0 num posix_basename [] 2 line_afterShellExecution
          agent_cursor ctx0
        = (a, ctx0, [SetTimeout (TOOL_DONE_DELAY_MS constants0) (AgentToolDone 2 (Str (js ''t1'')))])"
    and ids: "activeToolIds a = removeAll (Str (js ''t1'')) (activeToolIds agent_cursor)"
    and sts: "activeToolStatuses a
        = AList.delete (Str (js ''t1'')) (activeToolStatuses agent_cursor)"
    and nms: "activeToolNames a = [(Str (js ''t0''), js ''MCP'')] @ [(Str (js ''t2''), js ''Bash'')]"
    by blast
  have r': "processCursorLine constants0 num posix_basename [] 2 line_afterShellExecution
          agent_cursor ctx0
        = (a, ctx0, [SetTimeout 300 (AgentToolDone 2 (Str (js ''t1'')))])"
    using r by (simp add: constants0_simps)
  have ids': "activeToolIds a = [Str (js ''t0''), Str (js ''t2'')]"
    using ids by (simp add: agent_cursor_def)
  have sts': "activeToolStatuses a
      = [(Str (js ''t0''), js ''MCP: search''), (Str (js ''t2''), js ''Running: make'')]"
    using sts by (simp add: agent_cursor_def)
  have nms': "activeToolNames a = [(Str (js ''t0''), js ''MCP''), (Str (js ''t2''), js ''Bash'')]"
    using nms by simp
  have "\<exists>agent'. processCursorLine constants0 num posix_basename [] 2 line_afterShellExecution
                   agent_cursor ctx0
                 = (agent', ctx0, [SetTimeout 300 (AgentToolDone 2 (Str (js ''t1'')))])
         \<and> activeToolIds agent' = [Str (js ''t0''), Str (js ''t2'')]
         \<and> activeToolStatuses agent'
             = [(Str (js ''t0''), js ''MCP: search''), (Str (js ''t2''), js ''Running: make'')]
         \<and> activeToolNames agent' = [(Str (js ''t0''), js ''MCP''), (Str (js ''t2''), js ''Bash'')]"
    using r' ids' sts' nms' by blast
  with line_event_cursor_examples(2) n k d i
  show "line_event line_afterShellExecution = Some (js ''afterShellExecution'')
   \<and> activeToolNames agent_cursor
       = [(Str (js ''t0''), js ''MCP'')]
           @ (Str (js ''t1''), cursorToolName (js ''afterShellExecution''))
           # [(Str (js ''t2''), js ''Bash'')]
   \<and> cursorToolName (js ''afterShellExecution'') \<notin> snd ` set [(Str (js ''t0''), js ''MCP'')]
   \<and> distinct (map fst (activeToolNames agent_cursor))
   \<and> truthy_value (Str (js ''t1''))
   \<and> (\<exists>agent'. processCursorLine constants0 num posix_basename [] 2 line_afterShellExecution
                   agent_cursor ctx0
                 = (agent', ctx0, [SetTimeout 300 (AgentToolDone 2 (Str (js ''t1'')))])
         \<and> activeToolIds agent' = [Str (js ''t0''), Str (js ''t2'')]
         \<and> activeToolStatuses agent'
             = [(Str (js ''t0''), js ''MCP: search''), (Str (js ''t2''), js ''Running: make'')]
         \<and> activeToolNames agent' = [(Str (js ''t0''), js ''MCP''), (Str (js ''t2''), js ''Bash'')])"
    by (intro conjI)
qed

text \<open>
  C6, as amended. Every Codex line of type \<open>ApprovalRequest\<close> sets \<open>permissionSent\<close> and
  posts one \<open>agentToolPermission\<close>, whether or not \<open>permissionSent\<close> was already set:
  the flag records the request and does not gate the post. The counterexample feeds two
  such lines in a row to a fresh agent and gets two posts.
\<close>

theorem approval_request_always_emitted:
  assumes "line_event line = Some (js ''ApprovalRequest'')" and "webview ctx"
  shows "processCodexLine c num uuid ref agentId line agent ctx
         = (agent\<lparr>permissionSent := True\<rparr>, ctx, [PostMessage (AgentToolPermission agentId)])"
  using line_event_codex [OF assms(1), of c num uuid ref agentId agent ctx] assms(2)
  by (auto simp: codexEvent_ApprovalRequest postMessage_def processCodexLine_def)

theorem approval_request_always_emitted_witness:
  "\<forall>num. line_event line_ApprovalRequest = Some (js ''ApprovalRequest'') \<and> webview ctx0
   \<and> processCodexLine constants0 num [] 0 1 line_ApprovalRequest
         (agent0\<lparr>permissionSent := True\<rparr>) ctx0
       = (agent0\<lparr>permissionSent := True\<rparr>, ctx0, [PostMessage (AgentToolPermission 1)])"
proof
  fix num
  show "line_event line_ApprovalRequest = Some (js ''ApprovalRequest'') \<and> webview ctx0
   \<and> processCodexLine constants0 num [] 0 1 line_ApprovalRequest
         (agent0\<lparr>permissionSent := True\<rparr>) ctx0
       = (agent0\<lparr>permissionSent := True\<rparr>, ctx0, [PostMessage (AgentToolPermission 1)])"
    using approval_request_always_emitted [OF line_event_examples(5) webview_ctx0,
        of constants0 num "[]" 0 1 "agent0\<lparr>permissionSent := True\<rparr>"]
      line_event_examples(5) webview_ctx0
    by simp
qed

theorem second_approval_request_counterexample:
  "\<forall>num. feedCodexLines constants0 num 1
      [(line_ApprovalRequest, [], 0), (line_ApprovalRequest, [], 1)] agent0 ctx0
   = (agent0\<lparr>permissionSent := True\<rparr>, ctx0,
      [PostMessage (AgentToolPermission 1), PostMessage (AgentToolPermission 1)])"
proof
  fix num
  have 1: "processCodexLine constants0 num [] 0 1 line_ApprovalRequest agent0 ctx0
      = (agent0\<lparr>permissionSent := True\<rparr>, ctx0, [PostMessage (AgentToolPermission 1)])"
    using line_event_codex [OF line_event_examples(5), of constants0 num "[]" 0 1 agent0 ctx0]
    by (auto simp: codexEvent_ApprovalRequest postMessage_def webview_ctx0 processCodexLine_def)
  have 2: "processCodexLine constants0 num [] 1 1 line_ApprovalRequest
        (agent0\<lparr>permissionSent := True\<rparr>) ctx0
      = (agent0\<lparr>permissionSent := True\<rparr>, ctx0, [PostMessage (AgentToolPermission 1)])"
    using line_event_codex [OF line_event_examples(5),
        of constants0 num "[]" 1 1 "agent0\<lparr>permissionSent := True\<rparr>" ctx0]
    by (auto simp: codexEvent_ApprovalRequest postMessage_def webview_ctx0 processCodexLine_def)
  show "feedCodexLines constants0 num 1
      [(line_ApprovalRequest, [], 0), (line_ApprovalRequest, [], 1)] agent0 ctx0
   = (agent0\<lparr>permissionSent := True\<rparr>, ctx0,
      [PostMessage (AgentToolPermission 1), PostMessage (AgentToolPermission 1)])"
    using 1 2 by simp
qed

text \<open>
  C7. Every snapshot that \<open>restoreAgents\<close> restores (its provider needs no terminal, or
  a live terminal has the snapshot's terminal name) has an agent under its id afterwards,
  and that agent carries the id, has all transient tracking empty (the five tool
  collections, \<open>lineBuffer\<close>, \<open>isWaiting\<close>, \<open>permissionSent\<close>, \<open>hadToolsInTurn\<close>), and has
  \<open>fileOffset\<close> equal to the size of its transcript file when that file exists (and 0
  when it does not yet): tailing starts at the end of what was already written.
\<close>

theorem restoreAgents_fast_forwards:
  assumes "p \<in> set persisted" and "restorable liveTerminals p"
  shows "restored_as files (persisted_id p)
           (agents (fst (restoreAgents c liveTerminals files persisted view)) (persisted_id p))"
  using assms by (rule restoreAgents_core)

theorem restoreAgents_fast_forwards_witness:
  "snapshot_codex \<in> set [snapshot_codex, snapshot_cursor]
   \<and> restorable terminals0 snapshot_codex
   \<and> restored_as files0 4
       (agents (fst (restoreAgents constants0 terminals0 files0
          [snapshot_codex, snapshot_cursor] view0)) 4)
   \<and> files0 (js ''/s/a.jsonl'') = Some 4096
   \<and> map_option fileOffset
       (agents (fst (restoreAgents constants0 terminals0 files0
          [snapshot_codex, snapshot_cursor] view0)) 4) = Some 4096"
proof -
  have m: "snapshot_codex \<in> set [snapshot_codex, snapshot_cursor]" by simp
  have i: "persisted_id snapshot_codex = 4" by (simp add: snapshot_codex_def)
  have f: "files0 (js ''/s/a.jsonl'') = Some 4096" by (simp add: files0_def)
  from restoreAgents_fast_forwards [OF m restorable_examples(1), of files0 constants0 view0]
  have "restored_as files0 4
       (agents (fst (restoreAgents constants0 terminals0 files0
          [snapshot_codex, snapshot_cursor] view0)) 4)"
    unfolding i .
  with m restorable_examples(1) f restore_example(1) show ?thesis by (intro conjI)
qed

text \<open>
  C8. \<open>removeAgent\<close> is complete and idempotent. In a registry whose timer and watcher
  maps hold entries only for registered agents, after \<open>removeAgent\<close> the id is absent
  from \<open>agents\<close>, \<open>fileWatchers\<close>, \<open>pollingTimers\<close>, \<open>waitingTimers\<close>,
  \<open>permissionTimers\<close> and \<open>jsonlPollTimers\<close>; for a registered id the call stops
  exactly the timers and the watcher the maps held for it and then persists; a second
  call changes nothing and does nothing.
\<close>

theorem removeAgent_complete_idempotent:
  assumes "timers_owned view"
  shows "absent agentId (fst (removeAgent agentId view))
       \<and> (agentId \<in> dom (agents view) \<longrightarrow>
            snd (removeAgent agentId view) = stops agentId view @ [PersistAgents])
       \<and> removeAgent agentId (fst (removeAgent agentId view)) = (fst (removeAgent agentId view), [])"
  using assms by (rule removeAgent_core)

theorem removeAgent_complete_idempotent_witness:
  "timers_owned view_tailing
   \<and> 1 \<in> dom (agents view_tailing)
   \<and> absent 1 (fst (removeAgent 1 view_tailing))
   \<and> snd (removeAgent 1 view_tailing)
       = [CloseWatcher (Watcher (js ''rollout.jsonl'')), ClearInterval (Timer 2000),
          ClearTimeout (Timer 7000), PersistAgents]
   \<and> removeAgent 1 (fst (removeAgent 1 view_tailing)) = (fst (removeAgent 1 view_tailing), [])"
proof -
  have d: "1 \<in> dom (agents view_tailing)" by (simp add: view_tailing_def)
  have s: "stops 1 view_tailing @ [PersistAgents]
       = [CloseWatcher (Watcher (js ''rollout.jsonl'')), ClearInterval (Timer 2000),
          ClearTimeout (Timer 7000), PersistAgents]"
    by (simp add: stops_def view_tailing_def view0_def)
  note T = removeAgent_complete_idempotent [OF view_tailing_owned, of 1]
  from T have a: "absent 1 (fst (removeAgent 1 view_tailing))" by blast
  from T d have e: "snd (removeAgent 1 view_tailing) = stops 1 view_tailing @ [PersistAgents]"
    by blast
  from T have r: "removeAgent 1 (fst (removeAgent 1 view_tailing))
      = (fst (removeAgent 1 view_tailing), [])" by blast
  from view_tailing_owned d a e [unfolded s] r show ?thesis by (intro conjI)
qed




text \<open>
  C10, as amended. For an agent with no open tool of kind Read and a context with a
  webview, a Cursor \<open>afterFileEdit\<close> line whose \<open>file_path\<close> is a string (or is missing
  or falsy, and so replaced by the empty string) posts \<open>agentToolStart\<close> with the
  generated id and the status "Editing " followed by the base name, schedules
  \<open>agentToolDone\<close> with the same id after \<open>TOOL_DONE_DELAY_MS\<close>, and leaves the three
  tool collections as they were. \<open>hadToolsInTurn\<close> ends true when some other tool is
  still open and false when none is: the assignment of true is followed by the reset that
  every tool-end line performs once no tool is open. The counterexample is a fresh agent,
  whose flag is false after the line.
\<close>

theorem cursor_standalone_edit:
  assumes "JSON_parse line = Some record"
    and "event_type record = Some (js ''afterFileEdit'')"
    and "field_or num record (js ''file_path'') (JString []) = JString file_path"
    and "js ''Read'' \<notin> snd ` set (activeToolNames agent)"
    and "webview ctx"
  shows "processCursorLine c num basename newId agentId line agent ctx
         = (agent\<lparr>hadToolsInTurn := (activeToolIds agent \<noteq> [])\<rparr>, ctx,
            [PostMessage (AgentToolStart agentId (Str newId) (js ''Editing '' @ basename file_path)),
             SetTimeout (TOOL_DONE_DELAY_MS c) (AgentToolDone agentId (Str newId))])"
  using assms by (rule cursor_standalone_edit_core)

theorem cursor_standalone_edit_witness:
  "\<forall>num. JSON_parse line_afterFileEdit
     = Some (JObject [(js ''type'', JString (js ''afterFileEdit'')),
                      (js ''file_path'', JString (js ''/src/app/main.ts''))])
   \<and> js ''Read'' \<notin> snd ` set (activeToolNames agent_cursor_one)
   \<and> webview ctx0
   \<and> processCursorLine constants0 num posix_basename cursor_id 2 line_afterFileEdit
         agent_cursor_one ctx0
       = (agent_cursor_one, ctx0,
          [PostMessage (AgentToolStart 2 (Str cursor_id) (js ''Editing main.ts'')),
           SetTimeout 300 (AgentToolDone 2 (Str cursor_id))])
   \<and> hadToolsInTurn agent_cursor_one"
proof
  fix num
  from cursor_standalone_edit [OF parse_afterFileEdit afterFileEdit_record no_Read_examples(1)
      webview_ctx0, of constants0 num posix_basename cursor_id 2]
  have "processCursorLine constants0 num posix_basename cursor_id 2 line_afterFileEdit
         agent_cursor_one ctx0
       = (agent_cursor_one, ctx0,
          [PostMessage (AgentToolStart 2 (Str cursor_id) (js ''Editing main.ts'')),
           SetTimeout 300 (AgentToolDone 2 (Str cursor_id))])"
    by (simp add: constants0_simps posix_basename_example agent_cursor_one_def js_append)
  with parse_afterFileEdit no_Read_examples(1) webview_ctx0 flags_examples(2)
  show "JSON_parse line_afterFileEdit
     = Some (JObject [(js ''type'', JString (js ''afterFileEdit'')),
                      (js ''file_path'', JString (js ''/src/app/main.ts''))])
   \<and> js ''Read'' \<notin> snd ` set (activeToolNames agent_cursor_one)
   \<and> webview ctx0
   \<and> processCursorLine constants0 num posix_basename cursor_id 2 line_afterFileEdit
         agent_cursor_one ctx0
       = (agent_cursor_one, ctx0,
          [PostMessage (AgentToolStart 2 (Str cursor_id) (js ''Editing main.ts'')),
           SetTimeout 300 (AgentToolDone 2 (Str cursor_id))])
   \<and> hadToolsInTurn agent_cursor_one"
    by (intro conjI)
qed

theorem cursor_standalone_edit_counterexample:
  "\<forall>num. js ''Read'' \<notin> snd ` set (activeToolNames agent_cursor0)
   \<and> \<not> hadToolsInTurn
       (fst (processCursorLine constants0 num posix_basename cursor_id 2 line_afterFileEdit
          agent_cursor0 ctx0))"
proof
  fix num
  from cursor_standalone_edit_core [OF parse_afterFileEdit afterFileEdit_record
      no_Read_examples(2) webview_ctx0, of constants0 num posix_basename cursor_id 2]
  have "\<not> hadToolsInTurn
       (fst (processCursorLine constants0 num posix_basename cursor_id 2 line_afterFileEdit
          agent_cursor0 ctx0))"
    by (simp add: flags_examples)
  with no_Read_examples(2)
  show "js ''Read'' \<notin> snd ` set (activeToolNames agent_cursor0)
   \<and> \<not> hadToolsInTurn
       (fst (processCursorLine constants0 num posix_basename cursor_id 2 line_afterFileEdit
          agent_cursor0 ctx0))"
    by (intro conjI)
qed

end
